theory Spec2Isabelle
  imports Main "HOL-Library.Word" "HOL-Library.Sublist"
begin

section \<open>JavaScript strings\<close>

text \<open>
  A JavaScript string is a sequence of UTF-16 code units. \<open>trim\<close>, \<open>split\<close>,
  \<open>startsWith\<close>, \<open>===\<close> and a regular expression without the \<open>u\<close> flag all work on
  code units, so the model is a list of 16-bit words. \<open>js\<close> embeds an ASCII literal.
\<close>

type_synonym js_string = "16 word list"

definition js :: "string \<Rightarrow> js_string" where
  "js s = map of_char s"

text \<open>
  \<open>String.prototype.trim\<close> removes the code units of ECMAScript's WhiteSpace and
  LineTerminator productions from both ends.
\<close>

definition isWhiteSpace :: "16 word \<Rightarrow> bool" where
  "isWhiteSpace c \<longleftrightarrow>
     c \<in> set [0x0009, 0x000A, 0x000B, 0x000C, 0x000D, 0x0020, 0x00A0, 0x1680,
              0x2028, 0x2029, 0x202F, 0x205F, 0x3000, 0xFEFF]
     \<or> (0x2000 \<le> c \<and> c \<le> 0x200A)"

definition trim :: "js_string \<Rightarrow> js_string" where
  "trim s = rev (dropWhile isWhiteSpace (rev (dropWhile isWhiteSpace s)))"

text \<open>The character class \<open>[A-Za-z0-9]\<close>; the source's regular expression is its complement.\<close>

definition isAlphanumeric :: "16 word \<Rightarrow> bool" where
  "isAlphanumeric c \<longleftrightarrow>
     (0x41 \<le> c \<and> c \<le> 0x5A) \<or> (0x61 \<le> c \<and> c \<le> 0x7A) \<or> (0x30 \<le> c \<and> c \<le> 0x39)"

text \<open>
  \<open>s.split(sep)\<close> for a separator that matches exactly one code unit (the regular
  expression \<open>/[^A-Za-z0-9]/\<close>, or the string \<open>'?'\<close>): one segment more than there are
  separators, empty segments included; the empty string gives \<open>['']\<close>.
\<close>

fun js_split :: "('a \<Rightarrow> bool) \<Rightarrow> 'a list \<Rightarrow> 'a list list" where
  "js_split sep [] = [[]]"
| "js_split sep (c # cs) =
     (if sep c then [] # js_split sep cs
      else (case js_split sep cs of
              seg # segs \<Rightarrow> (c # seg) # segs
            | [] \<Rightarrow> [[c]]))"

text \<open>\<open>segments.join(sep)\<close>.\<close>

fun join :: "'a list \<Rightarrow> 'a list list \<Rightarrow> 'a list" where
  "join sep [] = []"
| "join sep [s] = s"
| "join sep (s # t # ss) = s @ sep @ join sep (t # ss)"

text \<open>\<open>s.startsWith(k)\<close>.\<close>

definition startsWith :: "'a list \<Rightarrow> 'a list \<Rightarrow> bool" where
  "startsWith s k \<longleftrightarrow> take (length k) s = k"

text \<open>Truthiness of a nullable string: \<open>null\<close>, \<open>undefined\<close> and \<open>''\<close> are falsy.\<close>

definition truthy :: "js_string option \<Rightarrow> bool" where
  "truthy v \<longleftrightarrow> (case v of None \<Rightarrow> False | Some s \<Rightarrow> s \<noteq> [])"


section \<open>The collection manager\<close>

subsection \<open>Data\<close>

text \<open>
  \<open>CollectionType\<close>, as far as the component reads it. The identifier is a number; a
  description may be \<open>null\<close>.
\<close>

record collection =
  collection_id :: int
  authorUsername :: js_string
  collection_slug :: js_string
  collection_name :: js_string
  collection_description :: "js_string option"
  defaultLocale :: js_string

text \<open>
  \<open>InternalProps\<close>. The filters are opaque to the component (\<open>'f\<close>). The router, the
  dispatcher, the error handler and the timer functions are the environment: calls to
  them are effects of the handlers below.
\<close>

record 'f manager_props =
  collection :: "collection option"
  creating :: bool
  filters :: 'f
  clientApp :: "js_string option"
  currentUsername :: "js_string option"
  hasAddonBeenAdded :: bool
  isCollectionBeingModified :: bool
  siteLang :: "js_string option"

datatype addon_added_status = ADDON_ADDED_STATUS_PENDING | ADDON_ADDED_STATUS_SUCCESS

text \<open>\<open>State\<close>: the edit buffer. \<open>None\<close> is \<open>null\<close>.\<close>

record manager_state =
  addonAddedStatus :: "addon_added_status option"
  customSlug :: bool
  description :: "js_string option"
  name :: "js_string option"
  slug :: "js_string option"

text \<open>
  \<open>propsToState\<close>. \<open>decodeHtmlEntities\<close> is imported from \<open>core/utils\<close>, which is not
  part of the sources at hand, so it is a parameter; it receives the name, and the
  description which may be \<open>null\<close>.
\<close>

definition propsToState ::
  "(js_string option \<Rightarrow> js_string option) \<Rightarrow> 'f manager_props \<Rightarrow> manager_state" where
  "propsToState decodeHtmlEntities props =
     \<lparr> addonAddedStatus = None,
       customSlug = False,
       description = (case collection props of
                        None \<Rightarrow> None
                      | Some c \<Rightarrow> decodeHtmlEntities (collection_description c)),
       name = (case collection props of
                 None \<Rightarrow> None
               | Some c \<Rightarrow> decodeHtmlEntities (Some (collection_name c))),
       slug = (case collection props of
                 None \<Rightarrow> None
               | Some c \<Rightarrow> Some (collection_slug c)) \<rparr>"

subsection \<open>Text input\<close>

text \<open>
  The form renders three inputs; \<open>event.target.name\<close> is the name of one of them, and
  \<open>[name]: value\<close> stores into the state key of that name.
\<close>

datatype input_name = NameInput | DescriptionInput | SlugInput

fun setInput :: "input_name \<Rightarrow> js_string \<Rightarrow> manager_state \<Rightarrow> manager_state" where
  "setInput NameInput v st = st\<lparr>name := Some v\<rparr>"
| "setInput DescriptionInput v st = st\<lparr>description := Some v\<rparr>"
| "setInput SlugInput v st = st\<lparr>slug := Some v\<rparr>"

text \<open>
  \<open>onTextInput\<close>: the state after the handler. The value \<open>None\<close> stands for \<open>null\<close> and
  \<open>undefined\<close>, on which the handler returns at once. (The handler first calls
  \<open>event.preventDefault()\<close>, which does not touch the state.)
\<close>

definition onTextInput ::
  "'f manager_props \<Rightarrow> input_name \<Rightarrow> js_string option \<Rightarrow> manager_state \<Rightarrow> manager_state" where
  "onTextInput props nm val st =
     (case val of
        None \<Rightarrow> st
      | Some v \<Rightarrow>
          (let trimmedValue = trim v in
           if creating props \<and> nm = NameInput \<and> \<not> customSlug st then
             setInput nm v
               (st\<lparr>slug := Some (join (js ''-'')
                                 (filter (\<lambda>s. s \<noteq> [])
                                    (js_split (\<lambda>c. \<not> isAlphanumeric c) trimmedValue)))\<rparr>)
           else if creating props \<and> nm = SlugInput \<and> trimmedValue \<noteq> [] then
             setInput nm v (st\<lparr>customSlug := True\<rparr>)
           else setInput nm v st))"

text \<open>A run of text-input events, each with the props current at its time.\<close>

fun onTextInputs ::
  "('f manager_props \<times> input_name \<times> js_string option) list \<Rightarrow> manager_state \<Rightarrow> manager_state" where
  "onTextInputs [] st = st"
| "onTextInputs ((props, nm, val) # evs) st = onTextInputs evs (onTextInput props nm val st)"

text \<open>
  The slug as the specification words it: the trimmed name is cut at every maximal run
  of non-alphanumeric characters, and the non-empty pieces are joined with a hyphen.
\<close>

function split_runs :: "('a \<Rightarrow> bool) \<Rightarrow> 'a list \<Rightarrow> 'a list list" where
  "split_runs sep cs =
     (if dropWhile (\<lambda>c. \<not> sep c) cs = [] then [takeWhile (\<lambda>c. \<not> sep c) cs]
      else takeWhile (\<lambda>c. \<not> sep c) cs
             # split_runs sep (dropWhile sep (dropWhile (\<lambda>c. \<not> sep c) cs)))"
  by pat_completeness auto
termination
proof (relation "measure (\<lambda>(sep, cs). length cs)")
  show "wf (measure (\<lambda>(sep, cs). length cs))" by simp
next
  fix sep :: "'a \<Rightarrow> bool" and cs :: "'a list"
  assume ne: "dropWhile (\<lambda>c. \<not> sep c) cs \<noteq> []"
  then obtain r rest where r: "dropWhile (\<lambda>c. \<not> sep c) cs = r # rest"
    by (cases "dropWhile (\<lambda>c. \<not> sep c) cs") auto
  have "sep r"
    using hd_dropWhile [OF ne] r by simp
  then have "length (dropWhile sep (r # rest)) \<le> length rest"
    by (simp add: length_dropWhile_le)
  moreover have "length (r # rest) \<le> length cs"
    using length_dropWhile_le [of "\<lambda>c. \<not> sep c" cs] r by simp
  ultimately show "((sep, dropWhile sep (dropWhile (\<lambda>c. \<not> sep c) cs)), (sep, cs))
      \<in> measure (\<lambda>(sep, cs). length cs)"
    using r by simp
qed

declare split_runs.simps [simp del]

definition slug_of_name :: "js_string \<Rightarrow> js_string" where
  "slug_of_name v =
     join (js ''-'') (filter (\<lambda>s. s \<noteq> []) (split_runs (\<lambda>c. \<not> isAlphanumeric c) (trim v)))"


subsection \<open>Receiving props, and the message timer\<close>

text \<open>
  The host's timers (\<open>window.setTimeout\<close>, \<open>window.clearTimeout\<close>, which the component
  receives as props): a clock, the next handle, and the scheduled one-shot callbacks as
  pairs of handle and due time. The component schedules one callback only,
  \<open>resetMessageStatus\<close>. Handles are positive, as in a browser.
\<close>

record timers =
  clock :: nat
  nextTimeoutID :: nat
  scheduled :: "(nat \<times> nat) list"

definition setTimeout :: "nat \<Rightarrow> timers \<Rightarrow> nat \<times> timers" where
  "setTimeout delay h =
     (nextTimeoutID h,
      h\<lparr>nextTimeoutID := Suc (nextTimeoutID h),
        scheduled := scheduled h @ [(nextTimeoutID h, clock h + delay)]\<rparr>)"

definition clearTimeout :: "nat \<Rightarrow> timers \<Rightarrow> timers" where
  "clearTimeout t h = h\<lparr>scheduled := filter (\<lambda>(i, due). i \<noteq> t) (scheduled h)\<rparr>"

text \<open>
  Time passes: the handles whose callbacks the host invokes (those due by then, each
  once), and the timers left.
\<close>

definition advance :: "nat \<Rightarrow> timers \<Rightarrow> nat list \<times> timers" where
  "advance d h =
     (map fst (filter (\<lambda>(i, due). due \<le> clock h + d) (scheduled h)),
      h\<lparr>clock := clock h + d,
        scheduled := filter (\<lambda>(i, due). \<not> due \<le> clock h + d) (scheduled h)\<rparr>)"

definition MESSAGE_RESET_TIME :: nat where
  "MESSAGE_RESET_TIME = 5000"

text \<open>The component instance: \<open>this.props\<close>, \<open>this.state\<close> and \<open>this.timeout\<close>.\<close>

record 'f component =
  props :: "'f manager_props"
  state :: manager_state
  timeout :: "nat option"

definition constructor ::
  "(js_string option \<Rightarrow> js_string option) \<Rightarrow> 'f manager_props \<Rightarrow> 'f component" where
  "constructor decodeHtmlEntities p =
     \<lparr> props = p, state = propsToState decodeHtmlEntities p, timeout = None \<rparr>"

definition resetMessageStatus :: "manager_state \<Rightarrow> manager_state" where
  "resetMessageStatus st = st\<lparr>addonAddedStatus := None\<rparr>"

text \<open>
  \<open>componentWillReceiveProps\<close>, with the incoming props \<open>nprops\<close>; \<open>this\<close> still holds
  the current ones. The two \<open>setState\<close> calls merge in order.
\<close>

definition componentWillReceiveProps ::
  "(js_string option \<Rightarrow> js_string option) \<Rightarrow> 'f manager_props
     \<Rightarrow> 'f component \<times> timers \<Rightarrow> 'f component \<times> timers" where
  "componentWillReceiveProps decodeHtmlEntities nprops = (\<lambda>(this, h).
     (let existingId = map_option collection_id (collection (props this));
          hasAddonBeenAddedNew = hasAddonBeenAdded nprops;
          hasAddonBeenAddedOld = hasAddonBeenAdded (props this);
          st1 = (case collection nprops of
                   None \<Rightarrow> state this
                 | Some c \<Rightarrow>
                     if Some (collection_id c) \<noteq> existingId
                     then propsToState decodeHtmlEntities nprops
                     else state this);
          st2 = (if hasAddonBeenAddedOld \<noteq> hasAddonBeenAddedNew
                 then st1\<lparr>addonAddedStatus :=
                            (if hasAddonBeenAdded nprops
                             then Some ADDON_ADDED_STATUS_SUCCESS else None)\<rparr>
                 else st1)
      in if hasAddonBeenAddedNew \<and> hasAddonBeenAddedNew \<noteq> hasAddonBeenAddedOld
         then (case setTimeout MESSAGE_RESET_TIME h of
                 (t, h') \<Rightarrow> (this\<lparr>state := st2, timeout := Some t\<rparr>, h'))
         else (this\<lparr>state := st2\<rparr>, h)))"

text \<open>React then makes the incoming props the current ones.\<close>

definition receiveProps ::
  "(js_string option \<Rightarrow> js_string option) \<Rightarrow> 'f manager_props
     \<Rightarrow> 'f component \<times> timers \<Rightarrow> 'f component \<times> timers" where
  "receiveProps decodeHtmlEntities nprops w =
     (case componentWillReceiveProps decodeHtmlEntities nprops w of
        (this, h) \<Rightarrow> (this\<lparr>props := nprops\<rparr>, h))"

fun receiveAll ::
  "(js_string option \<Rightarrow> js_string option) \<Rightarrow> 'f manager_props list
     \<Rightarrow> 'f component \<times> timers \<Rightarrow> 'f component \<times> timers" where
  "receiveAll decodeHtmlEntities [] w = w"
| "receiveAll decodeHtmlEntities (p # ps) w =
     receiveAll decodeHtmlEntities ps (receiveProps decodeHtmlEntities p w)"

text \<open>
  The in-progress edits of the buffer, and the specification's trigger for resetting
  them: there is an incoming collection and its identifier is not the current one's
  (which is the case when no collection is current).
\<close>

definition edits ::
  "manager_state \<Rightarrow> js_string option \<times> js_string option \<times> js_string option \<times> bool" where
  "edits st = (name st, description st, slug st, customSlug st)"

definition identity_changes :: "'f manager_props \<Rightarrow> 'f manager_props \<Rightarrow> bool" where
  "identity_changes current incoming \<longleftrightarrow>
     (case collection incoming of
        None \<Rightarrow> False
      | Some c \<Rightarrow>
          (case collection current of
             None \<Rightarrow> True
           | Some c0 \<Rightarrow> collection_id c \<noteq> collection_id c0))"

text \<open>\<open>componentWillUnmount\<close>: the handle \<open>0\<close> and no handle at all are falsy.\<close>

definition componentWillUnmount :: "'f component \<times> timers \<Rightarrow> timers" where
  "componentWillUnmount = (\<lambda>(this, h).
     (case timeout this of
        None \<Rightarrow> h
      | Some t \<Rightarrow> if t \<noteq> 0 then clearTimeout t h else h))"

subsection \<open>Cancel\<close>

datatype 'q manager_effect =
    PreventDefault
  | StopPropagation
  | RouterGoBack
  | ErrorHandlerClear
  | RouterPush js_string 'q

datatype invariant_violation = InvariantViolation string

text \<open>
  \<open>onCancel\<close>: the effects in order, and either the violated invariant or the state
  after the handler. \<open>convertFiltersToQueryParams\<close> is imported from
  \<open>amo/reducers/collections\<close> and is a parameter. \<open>invariant\<close> throws on a falsy value.
\<close>

definition onCancel ::
  "(js_string option \<Rightarrow> js_string option) \<Rightarrow> ('f \<Rightarrow> 'q) \<Rightarrow> 'f manager_props
     \<Rightarrow> manager_state \<Rightarrow> 'q manager_effect list \<times> (invariant_violation + manager_state)" where
  "onCancel decodeHtmlEntities convertFiltersToQueryParams p st =
     (let first = [PreventDefault, StopPropagation] @ (if creating p then [RouterGoBack] else [])
      in case collection p of
           None \<Rightarrow>
             (first, Inl (InvariantViolation ''A collection must be loaded before you can cancel''))
         | Some c \<Rightarrow>
             (case clientApp p of
                None \<Rightarrow>
                  (first, Inl (InvariantViolation ''A clientApp must be loaded before you can cancel''))
              | Some app \<Rightarrow>
                  if app = [] then
                    (first, Inl (InvariantViolation ''A clientApp must be loaded before you can cancel''))
                  else
                    (case siteLang p of
                       None \<Rightarrow>
                         (first, Inl (InvariantViolation ''A siteLang must be loaded before you can cancel''))
                     | Some lang \<Rightarrow>
                         if lang = [] then
                           (first, Inl (InvariantViolation ''A siteLang must be loaded before you can cancel''))
                         else
                           (first @
                              [ErrorHandlerClear,
                               RouterPush
                                 (js ''/'' @ lang @ js ''/'' @ app @ js ''/collections/''
                                    @ authorUsername c @ js ''/'' @ collection_slug c @ js ''/'')
                                 (convertFiltersToQueryParams (filters p))],
                            Inr (propsToState decodeHtmlEntities p)))))"

subsection \<open>The submit button\<close>

text \<open>
  The part of \<open>render\<close> that decides \<open>disabled\<close> for the submit button.
  \<open>formIsUnchanged\<close> is \<open>null\<close> (\<open>None\<close>) without a collection.
\<close>

definition formIsUnchanged :: "'f manager_props \<Rightarrow> manager_state \<Rightarrow> bool option" where
  "formIsUnchanged p st =
     (case collection p of
        None \<Rightarrow> None
      | Some c \<Rightarrow>
          Some (Some (collection_name c) = name st \<and>
                Some (collection_slug c) = slug st \<and>
                (collection_description c = description st \<or>
                 (collection_description c = None \<and> \<not> truthy (description st)))))"

definition formIsDisabled :: "'f manager_props \<Rightarrow> bool" where
  "formIsDisabled p \<longleftrightarrow> (collection p = None \<and> \<not> creating p) \<or> isCollectionBeingModified p"

definition isNameBlank :: "manager_state \<Rightarrow> bool" where
  "isNameBlank st \<longleftrightarrow>
     \<not> (case name st of None \<Rightarrow> False | Some s \<Rightarrow> s \<noteq> [] \<and> length (trim s) \<noteq> 0)"

definition isSlugBlank :: "manager_state \<Rightarrow> bool" where
  "isSlugBlank st \<longleftrightarrow>
     \<not> (case slug st of None \<Rightarrow> False | Some s \<Rightarrow> s \<noteq> [] \<and> length (trim s) \<noteq> 0)"

definition isSubmitDisabled :: "'f manager_props \<Rightarrow> manager_state \<Rightarrow> bool" where
  "isSubmitDisabled p st \<longleftrightarrow>
     formIsDisabled p \<or> formIsUnchanged p st = Some True \<or> isNameBlank st \<or> isSlugBlank st"

text \<open>
  The policy as the specification words it: a field is blank when it is absent or
  trims to nothing, and the buffer equals the persisted collection when the three
  values are the same.
\<close>

definition blank :: "js_string option \<Rightarrow> bool" where
  "blank v \<longleftrightarrow> (case v of None \<Rightarrow> True | Some s \<Rightarrow> trim s = [])"

definition buffer_equals_persisted :: "manager_state \<Rightarrow> collection \<Rightarrow> bool" where
  "buffer_equals_persisted st c \<longleftrightarrow>
     name st = Some (collection_name c) \<and> slug st = Some (collection_slug c) \<and>
     description st = collection_description c"

definition submit_disabled_as_specified :: "'f manager_props \<Rightarrow> manager_state \<Rightarrow> bool" where
  "submit_disabled_as_specified p st \<longleftrightarrow>
     (collection p = None \<and> \<not> creating p) \<or> isCollectionBeingModified p \<or>
     (case collection p of None \<Rightarrow> False | Some c \<Rightarrow> buffer_equals_persisted st c) \<or>
     blank (name st) \<or> blank (slug st)"

text \<open>
  The same with the code's notion of an unchanged description: a persisted \<open>null\<close>
  description also matches an absent or empty one in the buffer.
\<close>

definition buffer_unchanged :: "manager_state \<Rightarrow> collection \<Rightarrow> bool" where
  "buffer_unchanged st c \<longleftrightarrow>
     name st = Some (collection_name c) \<and> slug st = Some (collection_slug c) \<and>
     (description st = collection_description c \<or>
      (collection_description c = None \<and> description st = Some []))"

definition submit_disabled_policy :: "'f manager_props \<Rightarrow> manager_state \<Rightarrow> bool" where
  "submit_disabled_policy p st \<longleftrightarrow>
     (collection p = None \<and> \<not> creating p) \<or> isCollectionBeingModified p \<or>
     (case collection p of None \<Rightarrow> False | Some c \<Rightarrow> buffer_unchanged st c) \<or>
     blank (name st) \<or> blank (slug st)"


section \<open>The install button\<close>

subsection \<open>Data\<close>

text \<open>
  The constants of \<open>core/constants\<close> that the component imports are pairwise distinct
  strings; an add-on type, an install status and a tracking action is one of them or
  some other string.
\<close>

datatype addon_type = ADDON_TYPE_OPENSEARCH | ADDON_TYPE_THEME | ADDON_TYPE_OTHER js_string

datatype install_status =
    DISABLED | DOWNLOADING | ENABLED | ENABLING | INSTALLED | INSTALLING | UNINSTALLING
  | STATUS_OTHER js_string

datatype tracking_action = INSTALL_ACTION | INSTALL_STARTED_ACTION

text \<open>\<open>AddonType\<close>, as far as the component reads it; the platform files are opaque (\<open>'pf\<close>).\<close>

record addon_file =
  url :: js_string
  hash :: js_string

record addon_version =
  files :: "addon_file list"

record 'pf addon =
  guid :: js_string
  addon_name :: js_string
  addon_slug :: js_string
  addon_type :: addon_type
  current_version :: "addon_version option"
  platformFiles :: 'pf

text \<open>
  \<open>InternalProps\<close>. The injected props of the source start with an underscore:
  \<open>prop_InstallTrigger\<close> tells whether \<open>_InstallTrigger\<close> is an object or \<open>null\<close>,
  \<open>prop_config_server\<close> is \<open>_config.get('server')\<close>, \<open>prop_getClientCompatibility\<close> gives
  the \<open>compatible\<close> field of the result of \<open>_getClientCompatibility\<close>, and \<open>prop_gettext\<close>
  is \<open>i18n.gettext\<close>. The router location is opaque (\<open>'loc\<close>).
\<close>

record ('loc, 'pf) button_props =
  addon :: "'pf addon"
  className :: "js_string option"
  defaultInstallSource :: js_string
  location :: 'loc
  status :: install_status
  prop_InstallTrigger :: bool
  prop_config_server :: bool
  prop_getClientCompatibility :: "'pf addon \<Rightarrow> js_string \<Rightarrow> js_string \<Rightarrow> bool"
  prop_gettext :: "js_string \<Rightarrow> js_string"
  button_clientApp :: js_string
  userAgentInfo :: js_string

text \<open>
  The functions and the constant the module imports from files that are not part of the
  sources at hand (\<open>core/imageUtils\<close>, \<open>core/installAddon\<close>, \<open>core/themeInstall\<close>,
  \<open>core/tracking\<close>, \<open>core/constants\<close>): parameters of the model. \<open>getThemeData\<close> stands
  for \<open>JSON.stringify(getThemeData(addon))\<close>.
\<close>

record ('loc, 'pf) button_imports =
  getAddonIconUrl :: "'pf addon \<Rightarrow> js_string"
  findInstallURL :: "js_string \<Rightarrow> 'loc \<Rightarrow> 'pf \<Rightarrow> js_string \<Rightarrow> js_string option"
  getThemeData :: "'pf addon \<Rightarrow> js_string"
  getAddonTypeForTracking :: "addon_type \<Rightarrow> js_string"
  getAddonEventCategory :: "addon_type \<Rightarrow> tracking_action \<Rightarrow> js_string"
  ADDON_TYPE_THEMES :: "addon_type list"

subsection \<open>Effects\<close>

text \<open>
  What a handler does to its environment, in order: calls on the event, the tracker,
  the logger, the browser and the install helpers. The payload is the object that
  \<open>InstallTrigger.install\<close> receives under the add-on's name (its \<open>toString\<close> member
  returns the \<open>URL\<close> again); \<open>uninstall_params\<close> is the argument of \<open>uninstall\<close>.
\<close>

record install_payload =
  Hash :: "js_string option"
  IconURL :: js_string
  URL :: js_string

record uninstall_params =
  uninstall_guid :: js_string
  uninstall_installURL :: js_string
  uninstall_name :: js_string
  uninstall_type :: addon_type

datatype log_message =
    NoFileHashFound js_string js_string js_string
  | InstallingWithInstallTrigger js_string
  | InstallTriggerCompleted js_string int
  | AddingOpenSearchProvider
  | NotRenderingOpenSearchOnServer

datatype 'pf button_effect =
    EventPreventDefault
  | EventStopPropagation
  | SendEvent js_string js_string js_string
  | LogDebug log_message
  | LogInfo log_message
  | LogWarn log_message
  | InstallTrigger_install js_string install_payload
  | AddSearchProvider js_string
  | InstallThemeCall "'pf addon" install_status
  | UninstallCall uninstall_params

datatype js_error = Error string

subsection \<open>The file hash\<close>

text \<open>The loop over \<open>addon.current_version.files\<close>: the hash of the first match.\<close>

fun firstFileHash :: "js_string \<Rightarrow> addon_file list \<Rightarrow> js_string option" where
  "firstFileHash urlKey [] = None"
| "firstFileHash urlKey (file # rest) =
     (if startsWith (url file) urlKey then Some (hash file) else firstFileHash urlKey rest)"

text \<open>
  \<open>getFileHash\<close>. An argument that is missing is \<open>None\<close>, and a missing or empty
  \<open>installURL\<close> is falsy; the result is the thrown error, or the log written and the
  value returned (\<open>None\<close> for \<open>undefined\<close>). \<open>installURL.split('?')\<close> always has a first
  element.
\<close>

definition getFileHash ::
  "'pf addon option \<Rightarrow> js_string option \<Rightarrow> js_error + ('pf button_effect list \<times> js_string option)" where
  "getFileHash addonArg installURLArg =
     (case addonArg of
        None \<Rightarrow> Inl (Error ''The addon parameter cannot be empty'')
      | Some a \<Rightarrow>
          (case installURLArg of
             None \<Rightarrow> Inl (Error ''The installURL parameter cannot be empty'')
           | Some installURL \<Rightarrow>
               if installURL = [] then Inl (Error ''The installURL parameter cannot be empty'')
               else
                 (let urlKey = (case js_split (\<lambda>c. c = 0x3F) installURL of
                                  k # _ \<Rightarrow> k
                                | [] \<Rightarrow> [])
                  in case (case current_version a of
                             None \<Rightarrow> None
                           | Some v \<Rightarrow> firstFileHash urlKey (files v)) of
                       Some h \<Rightarrow> Inr ([], Some h)
                     | None \<Rightarrow>
                         Inr ([LogWarn (NoFileHashFound (addon_slug a) installURL urlKey)],
                              None))))"

text \<open>
  The install URL without its query string, as the specification words it: what stands
  before the first \<open>?\<close>.
\<close>

definition strip_query :: "js_string \<Rightarrow> js_string" where
  "strip_query u = takeWhile (\<lambda>c. c \<noteq> 0x3F) u"

subsection \<open>Click handlers\<close>

text \<open>
  A handler gets \<open>event.currentTarget.href\<close> and gives its effects in order, and the
  error thrown or the value returned (\<open>None\<close> for \<open>undefined\<close>).
\<close>

type_synonym 'pf handled = "'pf button_effect list \<times> (js_error + bool option)"

definition trackInstallStarted ::
  "('loc, 'pf) button_imports \<Rightarrow> js_string \<Rightarrow> addon_type \<Rightarrow> 'pf button_effect" where
  "trackInstallStarted imp addonName type =
     SendEvent (getAddonTypeForTracking imp type)
               (getAddonEventCategory imp type INSTALL_STARTED_ACTION) addonName"

definition trackInstallSucceeded ::
  "('loc, 'pf) button_imports \<Rightarrow> js_string \<Rightarrow> addon_type \<Rightarrow> 'pf button_effect" where
  "trackInstallSucceeded imp addonName type =
     SendEvent (getAddonTypeForTracking imp type)
               (getAddonEventCategory imp type INSTALL_ACTION) addonName"

definition installTheme :: "('loc, 'pf) button_props \<Rightarrow> js_string \<Rightarrow> 'pf handled" where
  "installTheme p href =
     ([EventPreventDefault, EventStopPropagation, InstallThemeCall (addon p) (status p)],
      Inr None)"

definition installOpenSearch ::
  "('loc, 'pf) button_imports \<Rightarrow> ('loc, 'pf) button_props \<Rightarrow> js_string \<Rightarrow> 'pf handled" where
  "installOpenSearch imp p href =
     ([EventPreventDefault, EventStopPropagation, LogInfo AddingOpenSearchProvider,
       AddSearchProvider href,
       trackInstallStarted imp (addon_name (addon p)) (addon_type (addon p))],
      Inr (Some False))"

text \<open>
  \<open>installExtension\<close>. The second argument of \<open>InstallTrigger.install\<close> is the callback
  \<open>installTriggerCallback\<close> below.
\<close>

definition installExtension ::
  "('loc, 'pf) button_imports \<Rightarrow> ('loc, 'pf) button_props \<Rightarrow> js_string \<Rightarrow> 'pf handled" where
  "installExtension imp p href =
     (let a = addon p;
          started = [trackInstallStarted imp (addon_name a) (addon_type a)]
      in if \<not> prop_InstallTrigger p then (started, Inr (Some True))
         else
           (let before = started @
                  [LogDebug (InstallingWithInstallTrigger (addon_slug a)),
                   EventPreventDefault, EventStopPropagation]
            in case getFileHash (Some a) (Some href) of
                 Inl e \<Rightarrow> (before, Inl e)
               | Inr (logged, h) \<Rightarrow>
                   (before @ logged @
                      [InstallTrigger_install (addon_name a)
                         \<lparr> Hash = h, IconURL = getAddonIconUrl imp a, URL = href \<rparr>],
                    Inr (Some False))))"

definition installTriggerCallback ::
  "('loc, 'pf) button_imports \<Rightarrow> ('loc, 'pf) button_props \<Rightarrow> js_string \<Rightarrow> int
     \<Rightarrow> 'pf button_effect list" where
  "installTriggerCallback imp p xpiURL st =
     LogDebug (InstallTriggerCompleted xpiURL st)
       # (if st = 0
          then [trackInstallSucceeded imp (addon_name (addon p)) (addon_type (addon p))]
          else [])"

definition uninstallAddon :: "('loc, 'pf) button_props \<Rightarrow> js_string \<Rightarrow> 'pf handled" where
  "uninstallAddon p href =
     ([EventPreventDefault, EventStopPropagation,
       UninstallCall \<lparr> uninstall_guid = guid (addon p), uninstall_installURL = href,
                       uninstall_name = addon_name (addon p),
                       uninstall_type = addon_type (addon p) \<rparr>],
      Inr (Some False))"

subsection \<open>Rendering\<close>

text \<open>
  The value of \<open>onClick\<close>: one of the four methods, or the arrow function
  \<open>(event) => event.preventDefault()\<close> that \<open>render\<close> starts with.
\<close>

datatype click_handler =
  PreventDefaultOnly | UninstallAddon | InstallTheme | InstallOpenSearch | InstallExtension

definition click ::
  "('loc, 'pf) button_imports \<Rightarrow> ('loc, 'pf) button_props \<Rightarrow> click_handler \<Rightarrow> js_string
     \<Rightarrow> 'pf handled" where
  "click imp p handler href =
     (case handler of
        PreventDefaultOnly \<Rightarrow> ([EventPreventDefault], Inr None)
      | UninstallAddon \<Rightarrow> uninstallAddon p href
      | InstallTheme \<Rightarrow> installTheme p href
      | InstallOpenSearch \<Rightarrow> installOpenSearch imp p href
      | InstallExtension \<Rightarrow> installExtension imp p href)"

datatype button_type = ButtonAction | ButtonNeutral

record ButtonProps =
  buttonType :: button_type
  data_browsertheme :: "js_string option"
  href :: "js_string option"
  onClick :: click_handler
  prependClientApp :: "bool option"
  prependLang :: "bool option"

definition showLoadingAnimation :: "('loc, 'pf) button_props \<Rightarrow> bool" where
  "showLoadingAnimation p \<longleftrightarrow> status p \<in> set [DOWNLOADING, ENABLING, INSTALLING, UNINSTALLING]"

definition getButtonText ::
  "('loc, 'pf) button_imports \<Rightarrow> ('loc, 'pf) button_props \<Rightarrow> js_string" where
  "getButtonText imp p =
     (case status p of
        DISABLED \<Rightarrow> prop_gettext p (js ''Remove'')
      | ENABLED \<Rightarrow> prop_gettext p (js ''Remove'')
      | INSTALLED \<Rightarrow> prop_gettext p (js ''Remove'')
      | ENABLING \<Rightarrow> prop_gettext p (js ''Enabling'')
      | DOWNLOADING \<Rightarrow> prop_gettext p (js ''Downloading'')
      | INSTALLING \<Rightarrow> prop_gettext p (js ''Installing'')
      | UNINSTALLING \<Rightarrow> prop_gettext p (js ''Uninstalling'')
      | STATUS_OTHER s \<Rightarrow>
          if addon_type (addon p) \<in> set (ADDON_TYPE_THEMES imp)
          then prop_gettext p (js ''Install Theme'')
          else prop_gettext p (js ''Add to Firefox''))"

definition getIconName :: "('loc, 'pf) button_props \<Rightarrow> js_string" where
  "getIconName p =
     (case status p of
        DISABLED \<Rightarrow> js ''delete''
      | ENABLED \<Rightarrow> js ''delete''
      | INSTALLED \<Rightarrow> js ''delete''
      | _ \<Rightarrow> js ''plus'')"

text \<open>
  What \<open>render\<close> returns inside \<open><div className="InstallButton">\<close>: the loading
  animation with its alternative text, or the button with its class names, its props,
  its icon and its text.
\<close>

datatype rendered =
    LoadingAnimation js_string
  | Button "js_string list" ButtonProps js_string js_string

text \<open>
  \<open>render\<close>: what it logs and what it returns (\<open>None\<close> for \<open>null\<close>). \<open>makeClassName\<close>
  keeps its truthy arguments and the keys of its object argument whose value is true.
\<close>

definition render ::
  "('loc, 'pf) button_imports \<Rightarrow> ('loc, 'pf) button_props
     \<Rightarrow> 'pf button_effect list \<times> rendered option" where
  "render imp p =
     (if addon_type (addon p) = ADDON_TYPE_OPENSEARCH \<and> prop_config_server p
      then ([LogInfo NotRenderingOpenSearchOnServer], None)
      else
        (let compatible =
               prop_getClientCompatibility p (addon p) (button_clientApp p) (userAgentInfo p);
             buttonIsDisabled = \<not> compatible;
             buttonClass =
               [js ''InstallButton-button'']
                 @ (if truthy (className p) then [case className p of Some c \<Rightarrow> c | None \<Rightarrow> []] else [])
                 @ (if buttonIsDisabled then [js ''InstallButton-button--disabled''] else []);
             installURL =
               findInstallURL imp (defaultInstallSource p) (location p)
                 (platformFiles (addon p)) (userAgentInfo p);
             buttonProps0 =
               \<lparr> buttonType = ButtonAction, data_browsertheme = None, href = installURL,
                 onClick = PreventDefaultOnly, prependClientApp = None, prependLang = None \<rparr>;
             buttonProps =
               (if \<not> buttonIsDisabled then
                  (if status p \<in> set [DISABLED, ENABLED, INSTALLED] then
                     buttonProps0\<lparr>buttonType := ButtonNeutral, onClick := UninstallAddon\<rparr>
                   else if addon_type (addon p) = ADDON_TYPE_THEME then
                     buttonProps0\<lparr>data_browsertheme := Some (getThemeData imp (addon p)),
                                  onClick := InstallTheme\<rparr>
                   else
                     buttonProps0\<lparr>onClick :=
                                    (if addon_type (addon p) = ADDON_TYPE_OPENSEARCH
                                     then InstallOpenSearch else InstallExtension),
                                  prependClientApp := Some False,
                                  prependLang := Some False\<rparr>)
                else buttonProps0)
         in ([],
             Some (if showLoadingAnimation p
                   then LoadingAnimation (getButtonText imp p)
                   else Button buttonClass buttonProps (getIconName p) (getButtonText imp p)))))"


section \<open>Example inputs\<close>

text \<open>A form that creates a new collection: no collection is loaded yet.\<close>

definition new_collection_props :: "unit manager_props" where
  "new_collection_props =
     \<lparr> collection = None, creating = True, filters = (),
       clientApp = Some (js ''firefox''), currentUsername = Some (js ''tofumatt''),
       hasAddonBeenAdded = False, isCollectionBeingModified = False,
       siteLang = Some (js ''en-US'') \<rparr>"

text \<open>A persisted collection without a description, and the form that edits it.\<close>

definition example_collection :: collection where
  "example_collection =
     \<lparr> collection_id = 1, authorUsername = js ''tofumatt'', collection_slug = js ''foo-bar'',
       collection_name = js ''Foo Bar'', collection_description = None,
       defaultLocale = js ''en-US'' \<rparr>"

definition edit_collection_props :: "unit manager_props" where
  "edit_collection_props =
     \<lparr> collection = Some example_collection, creating = False, filters = (),
       clientApp = Some (js ''firefox''), currentUsername = Some (js ''tofumatt''),
       hasAddonBeenAdded = False, isCollectionBeingModified = False,
       siteLang = Some (js ''en-US'') \<rparr>"

text \<open>The buffer of that form after the user has typed a new name.\<close>

definition edited_state :: manager_state where
  "edited_state =
     \<lparr> addonAddedStatus = None, customSlug = False, description = Some [],
       name = Some (js ''Renamed''), slug = Some (js ''foo-bar'') \<rparr>"

text \<open>The buffer that shows the persisted values, with an empty description box.\<close>

definition pristine_state :: manager_state where
  "pristine_state =
     \<lparr> addonAddedStatus = None, customSlug = False, description = Some [],
       name = Some (js ''Foo Bar''), slug = Some (js ''foo-bar'') \<rparr>"

text \<open>The props of that form once the store reports an add-on as added.\<close>

definition added_props :: "unit manager_props" where
  "added_props = edit_collection_props\<lparr>hasAddonBeenAdded := True\<rparr>"

text \<open>A host whose clock stands at \<open>0\<close> with no timer scheduled.\<close>

definition fresh_timers :: timers where
  "fresh_timers = \<lparr> clock = 0, nextTimeoutID = 1, scheduled = [] \<rparr>"

text \<open>The mounted instance of that form, holding the edited buffer.\<close>

definition editing_component :: "unit component" where
  "editing_component = \<lparr> props = edit_collection_props, state = edited_state, timeout = None \<rparr>"

text \<open>
  An extension with a file per platform, the values of the imported functions, and the
  props of its install button in a browser that has \<open>InstallTrigger\<close>.
\<close>

definition example_addon :: "unit addon" where
  "example_addon =
     \<lparr> guid = js ''ublock@example.org'', addon_name = js ''uBlock'', addon_slug = js ''ublock'',
       addon_type = ADDON_TYPE_OTHER (js ''extension''),
       current_version =
         Some \<lparr> files = [\<lparr> url = js ''https://a.io/1.xpi?src='', hash = js ''sha256:aa'' \<rparr>,
                         \<lparr> url = js ''https://a.io/2.xpi?src='', hash = js ''sha256:bb'' \<rparr>] \<rparr>,
       platformFiles = () \<rparr>"

definition example_imports :: "(unit, unit) button_imports" where
  "example_imports =
     \<lparr> getAddonIconUrl = (\<lambda>a. js ''https://a.io/icon.png''),
       findInstallURL = (\<lambda>src loc pf ua. Some (js ''https://a.io/2.xpi?src=hp'')),
       getThemeData = (\<lambda>a. js ''{}''),
       getAddonTypeForTracking = (\<lambda>t. js ''addon''),
       getAddonEventCategory =
         (\<lambda>t act. case act of
                    INSTALL_ACTION \<Rightarrow> js ''Installs''
                  | INSTALL_STARTED_ACTION \<Rightarrow> js ''Installs Started''),
       ADDON_TYPE_THEMES = [ADDON_TYPE_THEME] \<rparr>"

definition example_button_props :: "(unit, unit) button_props" where
  "example_button_props =
     \<lparr> addon = example_addon, className = None, defaultInstallSource = js ''hp'',
       location = (), status = STATUS_OTHER (js ''UNINSTALLED''),
       prop_InstallTrigger = True, prop_config_server = False,
       prop_getClientCompatibility = (\<lambda>a app ua. True),
       prop_gettext = (\<lambda>m. m),
       button_clientApp = js ''firefox'', userAgentInfo = js ''Mozilla/5.0'' \<rparr>"

text \<open>The same button for a client that the add-on is not compatible with.\<close>

definition incompatible_button_props :: "(unit, unit) button_props" where
  "incompatible_button_props =
     example_button_props\<lparr>prop_getClientCompatibility := (\<lambda>a app ua. False)\<rparr>"


section \<open>Facts about the string functions\<close>

lemma js_split_takeWhile:
  "js_split sep cs =
     takeWhile (\<lambda>c. \<not> sep c) cs
       # (case dropWhile (\<lambda>c. \<not> sep c) cs of [] \<Rightarrow> [] | r # rest \<Rightarrow> js_split sep rest)"
  by (induction cs) (auto split: list.splits)

lemma filter_js_split_dropWhile:
  "filter (\<lambda>s. s \<noteq> []) (js_split sep (dropWhile sep cs)) = filter (\<lambda>s. s \<noteq> []) (js_split sep cs)"
  by (induction cs) auto

text \<open>
  Cutting at single separators and dropping the empty pieces gives the pieces between
  maximal runs of separators.
\<close>

lemma split_runs_refines:
  "filter (\<lambda>s. s \<noteq> []) (split_runs sep cs) = filter (\<lambda>s. s \<noteq> []) (js_split sep cs)"
proof (induction sep cs rule: split_runs.induct)
  case (1 sep cs)
  show ?case
  proof (cases "dropWhile (\<lambda>c. \<not> sep c) cs")
    case Nil
    have "split_runs sep cs = [takeWhile (\<lambda>c. \<not> sep c) cs]"
      by (subst split_runs.simps) (simp only: Nil if_True refl)
    moreover have "js_split sep cs = [takeWhile (\<lambda>c. \<not> sep c) cs]"
      by (subst js_split_takeWhile) (simp only: Nil list.case refl)
    ultimately show ?thesis by simp
  next
    case (Cons r rest)
    then have ne: "dropWhile (\<lambda>c. \<not> sep c) cs \<noteq> []" by simp
    have "sep r" using hd_dropWhile [OF ne] Cons by simp
    then have dw: "dropWhile sep (dropWhile (\<lambda>c. \<not> sep c) cs) = dropWhile sep rest"
      by (simp only: Cons dropWhile.simps if_True)
    have ih: "filter (\<lambda>s. s \<noteq> []) (split_runs sep (dropWhile sep rest))
          = filter (\<lambda>s. s \<noteq> []) (js_split sep rest)"
      using "1.IH" [OF ne] by (simp only: dw filter_js_split_dropWhile)
    have a: "split_runs sep cs = takeWhile (\<lambda>c. \<not> sep c) cs # split_runs sep (dropWhile sep rest)"
      by (subst split_runs.simps) (simp only: ne if_False dw refl)
    have b: "js_split sep cs = takeWhile (\<lambda>c. \<not> sep c) cs # js_split sep rest"
      by (subst js_split_takeWhile) (simp only: Cons list.case refl)
    show ?thesis by (simp only: a b filter.simps ih)
  qed
qed


section \<open>The slug follows the name until it is edited\<close>

lemma onTextInput_name_slug:
  "creating p \<Longrightarrow> \<not> customSlug st \<Longrightarrow>
   onTextInput p NameInput (Some v) st = st\<lparr>slug := Some (slug_of_name v), name := Some v\<rparr>"
  by (simp add: onTextInput_def slug_of_name_def split_runs_refines Let_def)

lemma onTextInput_slug_custom:
  "creating p \<Longrightarrow> trim v \<noteq> [] \<Longrightarrow>
   onTextInput p SlugInput (Some v) st = st\<lparr>customSlug := True, slug := Some v\<rparr>"
  by (simp add: onTextInput_def Let_def)

lemma onTextInput_keeps_customSlug:
  "customSlug st \<Longrightarrow> customSlug (onTextInput p nm val st)"
  by (cases nm) (auto simp: onTextInput_def Let_def split: option.splits)

lemma onTextInputs_keeps_customSlug:
  "customSlug st \<Longrightarrow> customSlug (onTextInputs evs st)"
  by (induction evs st rule: onTextInputs.induct) (auto simp: onTextInput_keeps_customSlug)

lemma onTextInput_name_custom:
  "customSlug st \<Longrightarrow> slug (onTextInput p NameInput val st) = slug st"
  by (auto simp: onTextInput_def Let_def split: option.splits)

lemma slug_of_Foo_Bar: "slug_of_name (js ''Foo Bar'') = js ''Foo-Bar''"
  by (simp add: slug_of_name_def split_runs_refines js_def trim_def isWhiteSpace_def
      isAlphanumeric_def)

text \<open>
  C1. In create mode, a text-input event with value \<open>v\<close> on the name field while
  \<open>customSlug\<close> is unset stores the name and sets the slug to the pieces of the trimmed
  name between maximal runs of characters outside \<open>[A-Za-z0-9]\<close>, joined with \<open>-\<close>; the
  name \<open>Foo Bar\<close> gives the slug \<open>Foo-Bar\<close>. After a text-input event on the slug field
  in create mode whose trimmed value is not empty, \<open>customSlug\<close> stays set through every
  further run \<open>evs\<close> of text-input events (on any field, with any props and values), and
  a name edit made after them leaves the slug as it was. Outside create mode a name
  edit never touches the slug.
\<close>

theorem slug_autoderivation:
  "(creating p \<and> \<not> customSlug st \<longrightarrow>
      slug (onTextInput p NameInput (Some v) st) = Some (slug_of_name v) \<and>
      name (onTextInput p NameInput (Some v) st) = Some v)
   \<and> slug_of_name (js ''Foo Bar'') = js ''Foo-Bar''
   \<and> (creating p \<and> trim v \<noteq> [] \<longrightarrow>
        customSlug (onTextInputs evs (onTextInput p SlugInput (Some v) st)) \<and>
        slug (onTextInput q NameInput w (onTextInputs evs (onTextInput p SlugInput (Some v) st)))
          = slug (onTextInputs evs (onTextInput p SlugInput (Some v) st)))
   \<and> (\<not> creating q \<longrightarrow> slug (onTextInput q NameInput w st) = slug st)"
proof -
  have custom: "customSlug (onTextInputs evs (onTextInput p SlugInput (Some v) st))"
    if "creating p" "trim v \<noteq> []"
    using that by (simp add: onTextInput_slug_custom onTextInputs_keeps_customSlug)
  have edit: "slug (onTextInput q NameInput w st) = slug st" if "\<not> creating q"
    using that by (auto simp: onTextInput_def Let_def split: option.splits)
  show ?thesis
    using custom edit
    by (simp add: onTextInput_name_slug slug_of_Foo_Bar onTextInput_name_custom)
qed

theorem slug_autoderivation_witness:
  "slug (onTextInput new_collection_props NameInput (Some (js ''Foo Bar''))
           (propsToState (\<lambda>x. x) new_collection_props)) = Some (js ''Foo-Bar'')
   \<and> slug (onTextInput new_collection_props NameInput (Some (js ''Baz''))
             (onTextInputs [(new_collection_props, NameInput, Some (js ''Foo''))]
                (onTextInput new_collection_props SlugInput (Some (js ''mine''))
                   (propsToState (\<lambda>x. x) new_collection_props))))
       = Some (js ''mine'')"
proof -
  let ?p = new_collection_props
  let ?st = "propsToState (\<lambda>x. x) ?p"
  let ?evs = "[(?p, NameInput, Some (js ''Foo''))]"
  have c: "creating ?p" by (simp add: new_collection_props_def)
  have n: "\<not> customSlug ?st" by (simp add: propsToState_def)
  have t: "trim (js ''mine'') \<noteq> []" by (simp add: js_def trim_def isWhiteSpace_def)
  note first = slug_autoderivation [of ?p ?st "js ''Foo Bar''" "[]" ?p None]
  note later = slug_autoderivation [of ?p ?st "js ''mine''" ?evs ?p "Some (js ''Baz'')"]
  have "slug (onTextInput ?p NameInput (Some (js ''Foo Bar'')) ?st)
        = Some (slug_of_name (js ''Foo Bar''))"
    using first c n by blast
  moreover have "slug_of_name (js ''Foo Bar'') = js ''Foo-Bar''"
    using first by blast
  moreover have "slug (onTextInput ?p NameInput (Some (js ''Baz''))
                   (onTextInputs ?evs (onTextInput ?p SlugInput (Some (js ''mine'')) ?st)))
                 = slug (onTextInputs ?evs (onTextInput ?p SlugInput (Some (js ''mine'')) ?st))"
    using later c t by blast
  moreover have "slug (onTextInputs ?evs (onTextInput ?p SlugInput (Some (js ''mine'')) ?st))
                 = Some (js ''mine'')"
    using c t by (simp add: onTextInput_def Let_def)
  ultimately show ?thesis by (simp only: simp_thms)
qed


section \<open>Receiving props\<close>

lemma cwrp_state:
  "state (fst (componentWillReceiveProps dec np (this, h))) =
     (let st1 = (if identity_changes (props this) np then propsToState dec np else state this)
      in if hasAddonBeenAdded (props this) \<noteq> hasAddonBeenAdded np
         then st1\<lparr>addonAddedStatus :=
                    (if hasAddonBeenAdded np then Some ADDON_ADDED_STATUS_SUCCESS else None)\<rparr>
         else st1)"
  by (auto simp: componentWillReceiveProps_def identity_changes_def Let_def
      split: option.splits prod.splits)

lemma receiveProps_state:
  "state (fst (receiveProps dec np (this, h))) = state (fst (componentWillReceiveProps dec np (this, h)))"
  by (simp add: receiveProps_def split: prod.splits)

lemma receiveProps_props:
  "props (fst (receiveProps dec np w)) = np"
  by (simp add: receiveProps_def split: prod.splits)

lemma edits_receive_same:
  "\<not> identity_changes (props this) np \<Longrightarrow>
   edits (state (fst (receiveProps dec np (this, h)))) = edits (state this)"
  by (simp add: receiveProps_state cwrp_state edits_def Let_def)

lemma edits_receive_new:
  "identity_changes (props this) np \<Longrightarrow>
   edits (state (fst (receiveProps dec np (this, h)))) = edits (propsToState dec np)"
  by (simp add: receiveProps_state cwrp_state edits_def Let_def)

lemma edits_receiveAll_same:
  "\<forall>p \<in> set ps. map_option collection_id (collection p) = Some i \<Longrightarrow>
   map_option collection_id (collection (props (fst w))) = Some i \<Longrightarrow>
   edits (state (fst (receiveAll dec ps w))) = edits (state (fst w))"
proof (induction ps arbitrary: w)
  case Nil
  then show ?case by simp
next
  case (Cons p ps)
  obtain this h where w: "w = (this, h)" by (cases w)
  have same: "\<not> identity_changes (props this) p"
    using Cons.prems w by (auto simp: identity_changes_def split: option.splits)
  have "edits (state (fst (receiveAll dec ps (receiveProps dec p w))))
        = edits (state (fst (receiveProps dec p w)))"
    using Cons.prems by (intro Cons.IH) (simp_all add: receiveProps_props)
  then show ?case
    using edits_receive_same [OF same] w by simp
qed

text \<open>
  C5. When props arrive, the edits of the buffer (draft name, description, slug and the
  custom-slug flag) become the incoming collection's decoded values if there is an
  incoming collection whose identifier is not the current one's, and stay as they are
  otherwise; through any sequence of incoming props that all carry a collection with
  the current identifier, the edits stay as they are.
\<close>

theorem reset_only_on_new_identity:
  "(identity_changes (props this) np \<longrightarrow>
      edits (state (fst (receiveProps dec np (this, h)))) = edits (propsToState dec np))
   \<and> (\<not> identity_changes (props this) np \<longrightarrow>
      edits (state (fst (receiveProps dec np (this, h)))) = edits (state this))
   \<and> ((\<forall>p \<in> set ps. map_option collection_id (collection p) = Some i) \<and>
       map_option collection_id (collection (props this)) = Some i \<longrightarrow>
      edits (state (fst (receiveAll dec ps (this, h)))) = edits (state this))"
  using edits_receiveAll_same [of ps i "(this, h)" dec]
  by (simp add: edits_receive_same edits_receive_new)

theorem reset_only_on_new_identity_witness:
  "edits (state (fst (receiveProps (\<lambda>x. x)
       (edit_collection_props\<lparr>collection := Some (example_collection\<lparr>collection_id := 2\<rparr>)\<rparr>)
       (editing_component, fresh_timers))))
     = (Some (js ''Foo Bar''), None, Some (js ''foo-bar''), False)
   \<and> edits (state (fst (receiveProps (\<lambda>x. x)
       (edit_collection_props\<lparr>hasAddonBeenAdded := True\<rparr>) (editing_component, fresh_timers))))
     = (Some (js ''Renamed''), Some [], Some (js ''foo-bar''), False)
   \<and> edits (state (fst (receiveAll (\<lambda>x. x)
       [edit_collection_props\<lparr>hasAddonBeenAdded := True\<rparr>, edit_collection_props]
       (editing_component, fresh_timers))))
     = (Some (js ''Renamed''), Some [], Some (js ''foo-bar''), False)"
proof -
  let ?other = "edit_collection_props\<lparr>collection := Some (example_collection\<lparr>collection_id := 2\<rparr>)\<rparr>"
  let ?added = "edit_collection_props\<lparr>hasAddonBeenAdded := True\<rparr>"
  let ?ps = "[?added, edit_collection_props]"
  have new: "identity_changes (props editing_component) ?other"
    by (simp add: identity_changes_def editing_component_def edit_collection_props_def
        example_collection_def)
  have same: "\<not> identity_changes (props editing_component) ?added"
    by (simp add: identity_changes_def editing_component_def edit_collection_props_def)
  have all: "\<forall>p \<in> set ?ps. map_option collection_id (collection p) = Some 1"
    by (simp add: edit_collection_props_def example_collection_def)
  have cur: "map_option collection_id (collection (props editing_component)) = Some 1"
    by (simp add: editing_component_def edit_collection_props_def example_collection_def)
  have "edits (state (fst (receiveProps (\<lambda>x. x) ?other (editing_component, fresh_timers))))
        = edits (propsToState (\<lambda>x. x) ?other)"
    using reset_only_on_new_identity [of editing_component ?other "\<lambda>x. x" fresh_timers "[]" 0] new
    by blast
  moreover have "edits (propsToState (\<lambda>x. x) ?other)
        = (Some (js ''Foo Bar''), None, Some (js ''foo-bar''), False)"
    by (simp add: edits_def propsToState_def edit_collection_props_def example_collection_def)
  moreover have "edits (state (fst (receiveProps (\<lambda>x. x) ?added (editing_component, fresh_timers))))
        = edits (state editing_component)"
    using reset_only_on_new_identity [of editing_component ?added "\<lambda>x. x" fresh_timers "[]" 0] same
    by blast
  moreover have "edits (state (fst (receiveAll (\<lambda>x. x) ?ps (editing_component, fresh_timers))))
        = edits (state editing_component)"
    using reset_only_on_new_identity [of editing_component ?added "\<lambda>x. x" fresh_timers ?ps 1]
      all cur
    by blast
  moreover have "edits (state editing_component)
        = (Some (js ''Renamed''), Some [], Some (js ''foo-bar''), False)"
    by (simp add: edits_def editing_component_def edited_state_def)
  ultimately show ?thesis by (simp only: simp_thms)
qed

section \<open>Cancel\<close>

lemma onCancel_aborts:
  "collection p = None \<or> \<not> truthy (clientApp p) \<or> \<not> truthy (siteLang p) \<Longrightarrow>
   fst (onCancel dec conv p st)
     = [PreventDefault, StopPropagation] @ (if creating p then [RouterGoBack] else [])
   \<and> (\<exists>e. snd (onCancel dec conv p st) = Inl e)"
  by (auto simp: onCancel_def truthy_def Let_def split: option.splits)

lemma onCancel_resets:
  "collection p = Some c \<Longrightarrow> clientApp p = Some app \<Longrightarrow> app \<noteq> [] \<Longrightarrow>
   siteLang p = Some lang \<Longrightarrow> lang \<noteq> [] \<Longrightarrow>
   onCancel dec conv p st
     = ([PreventDefault, StopPropagation] @ (if creating p then [RouterGoBack] else []) @
        [ErrorHandlerClear,
         RouterPush (js ''/'' @ lang @ js ''/'' @ app @ js ''/collections/'' @ authorUsername c
                       @ js ''/'' @ collection_slug c @ js ''/'')
                    (conv (filters p))],
        Inr (propsToState dec p))"
  by (simp add: onCancel_def Let_def)

text \<open>
  C9. A cancel event stops the event and, in create mode, goes back one history entry.
  If the collection is missing, or the client application or the site language is
  missing or empty, the handler then aborts on the violated invariant: nothing further
  happens and no state is set. Otherwise it clears the error handler, pushes the
  collection's URL \<open>/lang/app/collections/author/slug/\<close> with the filters converted to
  query parameters, and the state becomes the one computed from the props.
\<close>

theorem cancel_goes_back_fails_fast_or_resets:
  "((collection p = None \<or> \<not> truthy (clientApp p) \<or> \<not> truthy (siteLang p)) \<longrightarrow>
      fst (onCancel dec conv p st)
        = [PreventDefault, StopPropagation] @ (if creating p then [RouterGoBack] else [])
      \<and> (\<exists>e. snd (onCancel dec conv p st) = Inl e))
   \<and> (collection p = Some c \<and> clientApp p = Some app \<and> app \<noteq> [] \<and>
       siteLang p = Some lang \<and> lang \<noteq> [] \<longrightarrow>
      onCancel dec conv p st
        = ([PreventDefault, StopPropagation] @ (if creating p then [RouterGoBack] else []) @
           [ErrorHandlerClear,
            RouterPush (js ''/'' @ lang @ js ''/'' @ app @ js ''/collections/'' @ authorUsername c
                          @ js ''/'' @ collection_slug c @ js ''/'')
                       (conv (filters p))],
           Inr (propsToState dec p)))"
  using onCancel_aborts [of p dec conv st] onCancel_resets [of p c app lang dec conv st]
  by blast

theorem cancel_goes_back_fails_fast_or_resets_witness:
  "fst (onCancel (\<lambda>x. x) (\<lambda>f. f) new_collection_props edited_state)
     = [PreventDefault, StopPropagation, RouterGoBack]
   \<and> (\<exists>e. snd (onCancel (\<lambda>x. x) (\<lambda>f. f) new_collection_props edited_state) = Inl e)
   \<and> onCancel (\<lambda>x. x) (\<lambda>f. f) edit_collection_props edited_state
     = ([PreventDefault, StopPropagation, ErrorHandlerClear,
         RouterPush (js ''/en-US/firefox/collections/tofumatt/foo-bar/'') ()],
        Inr \<lparr> addonAddedStatus = None, customSlug = False, description = None,
              name = Some (js ''Foo Bar''), slug = Some (js ''foo-bar'') \<rparr>)"
proof -
  let ?new = new_collection_props
  let ?ed = edit_collection_props
  have none: "collection ?new = None" and cr: "creating ?new"
    by (simp_all add: new_collection_props_def)
  have h: "collection ?ed = Some example_collection" "clientApp ?ed = Some (js ''firefox'')"
    "js ''firefox'' \<noteq> []" "siteLang ?ed = Some (js ''en-US'')" "js ''en-US'' \<noteq> []"
    "\<not> creating ?ed"
    by (simp_all add: edit_collection_props_def js_def)
  have a: "fst (onCancel (\<lambda>x. x) (\<lambda>f. f) ?new edited_state)
        = [PreventDefault, StopPropagation] @ (if creating ?new then [RouterGoBack] else [])
      \<and> (\<exists>e. snd (onCancel (\<lambda>x. x) (\<lambda>f. f) ?new edited_state) = Inl e)"
    using cancel_goes_back_fails_fast_or_resets
      [of ?new "\<lambda>x. x" "\<lambda>f. f" edited_state example_collection "[]" "[]"] none
    by blast
  have b: "onCancel (\<lambda>x. x) (\<lambda>f. f) ?ed edited_state
        = ([PreventDefault, StopPropagation] @ (if creating ?ed then [RouterGoBack] else []) @
           [ErrorHandlerClear,
            RouterPush (js ''/'' @ js ''en-US'' @ js ''/'' @ js ''firefox'' @ js ''/collections/''
                          @ authorUsername example_collection
                          @ js ''/'' @ collection_slug example_collection @ js ''/'')
                       ((\<lambda>f. f) (filters ?ed))],
           Inr (propsToState (\<lambda>x. x) ?ed))"
    using cancel_goes_back_fails_fast_or_resets
      [of ?ed "\<lambda>x. x" "\<lambda>f. f" edited_state example_collection "js ''firefox''" "js ''en-US''"] h
    by blast
  have c: "propsToState (\<lambda>x. x) ?ed
      = \<lparr> addonAddedStatus = None, customSlug = False, description = None,
              name = Some (js ''Foo Bar''), slug = Some (js ''foo-bar'') \<rparr>"
    by (simp add: propsToState_def edit_collection_props_def example_collection_def)
  have d: "js ''/'' @ js ''en-US'' @ js ''/'' @ js ''firefox'' @ js ''/collections/''
             @ authorUsername example_collection
             @ js ''/'' @ collection_slug example_collection @ js ''/''
           = js ''/en-US/firefox/collections/tofumatt/foo-bar/''"
    by (simp add: js_def example_collection_def)
  show ?thesis
    using a b by (simp add: cr h(6) c d del: append.simps)
qed


section \<open>The submit button\<close>

lemma isNameBlank_blank: "isNameBlank st \<longleftrightarrow> blank (name st)"
  by (auto simp: isNameBlank_def blank_def trim_def split: option.splits)

lemma isSlugBlank_blank: "isSlugBlank st \<longleftrightarrow> blank (slug st)"
  by (auto simp: isSlugBlank_def blank_def trim_def split: option.splits)

lemma formIsUnchanged_buffer_unchanged:
  "formIsUnchanged p st = Some True \<longleftrightarrow>
     (case collection p of None \<Rightarrow> False | Some c \<Rightarrow> buffer_unchanged st c)"
  by (auto simp: formIsUnchanged_def buffer_unchanged_def truthy_def split: option.splits)

lemma isSubmitDisabled_policy: "isSubmitDisabled p st \<longleftrightarrow> submit_disabled_policy p st"
  by (simp add: isSubmitDisabled_def submit_disabled_policy_def formIsDisabled_def
      formIsUnchanged_buffer_unchanged isNameBlank_blank isSlugBlank_blank)

lemma trim_Nil_iff: "trim v \<noteq> [] \<Longrightarrow> v \<noteq> []"
  by (auto simp: trim_def)

lemma enabled_after_change:
  assumes "\<not> formIsDisabled p" "collection p = Some c" "trim v \<noteq> []"
  shows "v \<noteq> collection_name c \<and> \<not> blank (slug st) \<longrightarrow> \<not> isSubmitDisabled p (st\<lparr>name := Some v\<rparr>)"
    and "v \<noteq> collection_slug c \<and> \<not> blank (name st) \<longrightarrow> \<not> isSubmitDisabled p (st\<lparr>slug := Some v\<rparr>)"
    and "Some v \<noteq> collection_description c \<and> \<not> blank (name st) \<and> \<not> blank (slug st) \<longrightarrow>
           \<not> isSubmitDisabled p (st\<lparr>description := Some v\<rparr>)"
  using assms trim_Nil_iff [of v]
  by (auto simp: isSubmitDisabled_policy submit_disabled_policy_def formIsDisabled_def
      buffer_unchanged_def blank_def)

text \<open>
  C3, as stated, fails: for a persisted collection without a description and a buffer
  that shows its name and slug and an empty description box, the button is disabled,
  though a collection is loaded, nothing is in flight, name and slug are not blank, and
  the buffer's description (the empty string) is not the persisted one (\<open>null\<close>).
\<close>

theorem submit_disabled_counterexample:
  "isSubmitDisabled edit_collection_props pristine_state \<and>
   \<not> submit_disabled_as_specified edit_collection_props pristine_state"
  by (simp add: isSubmitDisabled_def formIsDisabled_def formIsUnchanged_def isNameBlank_def
      isSlugBlank_def submit_disabled_as_specified_def buffer_equals_persisted_def blank_def
      truthy_def edit_collection_props_def example_collection_def pristine_state_def
      js_def trim_def isWhiteSpace_def)

text \<open>
  C3, amended. The submit button is disabled exactly when no collection is loaded and
  the form is not in create mode, or a modification is in flight, or the buffer is
  unchanged (its name and slug are the persisted ones, and its description is the
  persisted one or is empty while the persisted one is \<open>null\<close>), or the trimmed name is
  blank, or the trimmed slug is blank. With a collection loaded and nothing in flight,
  setting the name, the slug or the description to a value that is not blank and not
  the persisted one leaves the button enabled, provided name and slug are not blank.
\<close>

theorem submit_button_policy:
  "(isSubmitDisabled p st \<longleftrightarrow> submit_disabled_policy p st)
   \<and> (\<not> formIsDisabled p \<and> collection p = Some c \<and> trim v \<noteq> [] \<longrightarrow>
        (v \<noteq> collection_name c \<and> \<not> blank (slug st) \<longrightarrow>
           \<not> isSubmitDisabled p (st\<lparr>name := Some v\<rparr>))
      \<and> (v \<noteq> collection_slug c \<and> \<not> blank (name st) \<longrightarrow>
           \<not> isSubmitDisabled p (st\<lparr>slug := Some v\<rparr>))
      \<and> (Some v \<noteq> collection_description c \<and> \<not> blank (name st) \<and> \<not> blank (slug st) \<longrightarrow>
           \<not> isSubmitDisabled p (st\<lparr>description := Some v\<rparr>)))"
  using enabled_after_change [of p c v st]
  by (simp only: isSubmitDisabled_policy) blast

theorem submit_button_policy_witness:
  "isSubmitDisabled edit_collection_props pristine_state
   \<and> \<not> isSubmitDisabled edit_collection_props (pristine_state\<lparr>name := Some (js ''Renamed'')\<rparr>)
   \<and> \<not> isSubmitDisabled edit_collection_props (pristine_state\<lparr>slug := Some (js ''renamed'')\<rparr>)
   \<and> \<not> isSubmitDisabled edit_collection_props
         (pristine_state\<lparr>description := Some (js ''Add-ons I like'')\<rparr>)"
proof -
  let ?p = edit_collection_props
  let ?st = pristine_state
  have pol: "submit_disabled_policy ?p ?st"
    by (simp add: submit_disabled_policy_def buffer_unchanged_def edit_collection_props_def
        example_collection_def pristine_state_def)
  have en: "\<not> formIsDisabled ?p" "collection ?p = Some example_collection"
    by (simp_all add: formIsDisabled_def edit_collection_props_def)
  have nb: "\<not> blank (name ?st)" "\<not> blank (slug ?st)"
    by (simp_all add: blank_def pristine_state_def js_def trim_def isWhiteSpace_def)
  have t: "trim (js ''Renamed'') \<noteq> []" "trim (js ''renamed'') \<noteq> []"
    "trim (js ''Add-ons I like'') \<noteq> []"
    by (simp_all add: js_def trim_def isWhiteSpace_def)
  have d: "js ''Renamed'' \<noteq> collection_name example_collection"
    "js ''renamed'' \<noteq> collection_slug example_collection"
    "Some (js ''Add-ons I like'') \<noteq> collection_description example_collection"
    by (simp_all add: example_collection_def js_def)
  have "isSubmitDisabled ?p ?st"
    using submit_button_policy [of ?p ?st example_collection "js ''Renamed''"] pol by blast
  moreover have "\<not> isSubmitDisabled ?p (?st\<lparr>name := Some (js ''Renamed'')\<rparr>)"
    using submit_button_policy [of ?p ?st example_collection "js ''Renamed''"] en nb t(1) d(1)
    by blast
  moreover have "\<not> isSubmitDisabled ?p (?st\<lparr>slug := Some (js ''renamed'')\<rparr>)"
    using submit_button_policy [of ?p ?st example_collection "js ''renamed''"] en nb t(2) d(2)
    by blast
  moreover have "\<not> isSubmitDisabled ?p (?st\<lparr>description := Some (js ''Add-ons I like'')\<rparr>)"
    using submit_button_policy [of ?p ?st example_collection "js ''Add-ons I like''"] en nb t(3) d(3)
    by blast
  ultimately show ?thesis by (simp only: simp_thms)
qed

section \<open>The message timer\<close>

lemma receive_added:
  "hasAddonBeenAdded (props this) = False \<Longrightarrow>
   receiveProps (\<lambda>x. x) added_props (this, h)
     = (\<lparr> props = added_props,
          state = (state this)\<lparr>addonAddedStatus := Some ADDON_ADDED_STATUS_SUCCESS\<rparr>,
          timeout = Some (nextTimeoutID h) \<rparr>,
        h\<lparr>nextTimeoutID := Suc (nextTimeoutID h),
          scheduled := scheduled h @ [(nextTimeoutID h, clock h + 5000)]\<rparr>)"
  if "collection (props this) = Some example_collection"
  using that
  by (simp add: receiveProps_def componentWillReceiveProps_def Let_def setTimeout_def
      MESSAGE_RESET_TIME_def added_props_def edit_collection_props_def)

lemma receive_not_added:
  "hasAddonBeenAdded (props this) = True \<Longrightarrow>
   receiveProps (\<lambda>x. x) edit_collection_props (this, h)
     = (\<lparr> props = edit_collection_props,
          state = (state this)\<lparr>addonAddedStatus := None\<rparr>,
          timeout = timeout this \<rparr>, h)"
  if "collection (props this) = Some example_collection"
  using that
  by (simp add: receiveProps_def componentWillReceiveProps_def Let_def edit_collection_props_def)

text \<open>
  C6. The add-on flag goes to true at time 0, back to false at 1000 and to true again
  at 2000; the component is unmounted at 3000. Each rise schedules a callback 5000
  later and stores its handle in \<open>this.timeout\<close>, the second over the first. Unmounting
  clears the second handle only: the first callback is still scheduled, and the host
  invokes it at 5000, after the teardown.
\<close>

theorem stacked_timer_outlives_unmount:
  "(let w1 = receiveProps (\<lambda>x. x) added_props (editing_component, fresh_timers);
        w2 = receiveProps (\<lambda>x. x) edit_collection_props
               (fst w1, snd (advance 1000 (snd w1)));
        w3 = receiveProps (\<lambda>x. x) added_props
               (fst w2, snd (advance 1000 (snd w2)));
        h4 = componentWillUnmount (fst w3, snd (advance 1000 (snd w3)))
    in scheduled (snd w1) = [(1, 5000)] \<and> timeout (fst w1) = Some 1 \<and>
       scheduled (snd w3) = [(1, 5000), (2, 7000)] \<and> timeout (fst w3) = Some 2 \<and>
       clock h4 = 3000 \<and> scheduled h4 = [(1, 5000)] \<and>
       fst (advance 2000 h4) = [1])"
proof -
  define w1 where "w1 = receiveProps (\<lambda>x. x) added_props (editing_component, fresh_timers)"
  define w2 where "w2 = receiveProps (\<lambda>x. x) edit_collection_props
               (fst w1, snd (advance 1000 (snd w1)))"
  define w3 where "w3 = receiveProps (\<lambda>x. x) added_props
               (fst w2, snd (advance 1000 (snd w2)))"
  define h4 where "h4 = componentWillUnmount (fst w3, snd (advance 1000 (snd w3)))"
  have p0: "collection (props editing_component) = Some example_collection"
    "hasAddonBeenAdded (props editing_component) = False"
    by (simp_all add: editing_component_def edit_collection_props_def)
  have e1: "w1 = (\<lparr> props = added_props,
          state = edited_state\<lparr>addonAddedStatus := Some ADDON_ADDED_STATUS_SUCCESS\<rparr>,
          timeout = Some 1 \<rparr>, \<lparr> clock = 0, nextTimeoutID = 2, scheduled = [(1, 5000)] \<rparr>)"
    unfolding w1_def receive_added [OF p0]
    by (simp add: editing_component_def fresh_timers_def)
  have a1: "snd (advance 1000 (snd w1))
      = \<lparr> clock = 1000, nextTimeoutID = 2, scheduled = [(1, 5000)] \<rparr>"
    by (simp add: e1 advance_def)
  have p1: "collection (props (fst w1)) = Some example_collection"
    "hasAddonBeenAdded (props (fst w1)) = True"
    by (simp_all add: e1 added_props_def edit_collection_props_def)
  have e2: "w2 = (\<lparr> props = edit_collection_props,
          state = edited_state\<lparr>addonAddedStatus := None\<rparr>,
          timeout = Some 1 \<rparr>, \<lparr> clock = 1000, nextTimeoutID = 2, scheduled = [(1, 5000)] \<rparr>)"
    unfolding w2_def receive_not_added [OF p1] a1
    by (simp add: e1)
  have a2: "snd (advance 1000 (snd w2))
      = \<lparr> clock = 2000, nextTimeoutID = 2, scheduled = [(1, 5000)] \<rparr>"
    by (simp add: e2 advance_def)
  have p2: "collection (props (fst w2)) = Some example_collection"
    "hasAddonBeenAdded (props (fst w2)) = False"
    by (simp_all add: e2 edit_collection_props_def)
  have e3: "w3 = (\<lparr> props = added_props,
          state = edited_state\<lparr>addonAddedStatus := Some ADDON_ADDED_STATUS_SUCCESS\<rparr>,
          timeout = Some 2 \<rparr>,
        \<lparr> clock = 2000, nextTimeoutID = 3, scheduled = [(1, 5000), (2, 7000)] \<rparr>)"
    unfolding w3_def receive_added [OF p2] a2
    by (simp add: e2)
  have e4: "h4 = \<lparr> clock = 3000, nextTimeoutID = 3, scheduled = [(1, 5000)] \<rparr>"
    unfolding h4_def by (simp add: e3 advance_def componentWillUnmount_def clearTimeout_def)
  have "scheduled (snd w1) = [(1, 5000)] \<and> timeout (fst w1) = Some 1 \<and>
       scheduled (snd w3) = [(1, 5000), (2, 7000)] \<and> timeout (fst w3) = Some 2 \<and>
       clock h4 = 3000 \<and> scheduled h4 = [(1, 5000)] \<and>
       fst (advance 2000 h4) = [1]"
    by (simp add: e1 e3 e4 advance_def)
  then show ?thesis
    unfolding Let_def w1_def w2_def w3_def h4_def .
qed


section \<open>The file hash\<close>

lemma startsWith_prefix: "startsWith s k \<longleftrightarrow> prefix k s"
proof
  assume "startsWith s k"
  then have "s = k @ drop (length k) s"
    by (metis append_take_drop_id startsWith_def)
  then show "prefix k s" by (metis prefixI)
next
  assume "prefix k s"
  then show "startsWith s k" by (auto simp: prefix_def startsWith_def)
qed

lemma firstFileHash_find:
  "firstFileHash k fs = map_option hash (find (\<lambda>f. prefix k (url f)) fs)"
  by (induction fs) (simp_all add: startsWith_prefix)

lemma urlKey_strip_query:
  "(case js_split (\<lambda>c. c = 0x3F) u of k # _ \<Rightarrow> k | [] \<Rightarrow> []) = strip_query u"
  by (subst js_split_takeWhile) (simp add: strip_query_def)

lemma getFileHash_found:
  "current_version a = Some ver \<Longrightarrow> u \<noteq> [] \<Longrightarrow>
   find (\<lambda>f. prefix (strip_query u) (url f)) (files ver) = Some f \<Longrightarrow>
   getFileHash (Some a) (Some u) = Inr ([], Some (hash f))"
  by (simp add: getFileHash_def urlKey_strip_query firstFileHash_find)

lemma getFileHash_missing:
  "current_version a = Some ver \<Longrightarrow> u \<noteq> [] \<Longrightarrow>
   find (\<lambda>f. prefix (strip_query u) (url f)) (files ver) = None \<Longrightarrow>
   getFileHash (Some a) (Some u)
     = Inr ([LogWarn (NoFileHashFound (addon_slug a) u (strip_query u))], None)"
  by (simp add: getFileHash_def urlKey_strip_query firstFileHash_find)

lemma installExtension_missing:
  "prop_InstallTrigger p \<Longrightarrow> current_version (addon p) = Some ver \<Longrightarrow> u \<noteq> [] \<Longrightarrow>
   find (\<lambda>f. prefix (strip_query u) (url f)) (files ver) = None \<Longrightarrow>
   installExtension imp p u
     = ([trackInstallStarted imp (addon_name (addon p)) (addon_type (addon p)),
         LogDebug (InstallingWithInstallTrigger (addon_slug (addon p))),
         EventPreventDefault, EventStopPropagation,
         LogWarn (NoFileHashFound (addon_slug (addon p)) u (strip_query u)),
         InstallTrigger_install (addon_name (addon p))
           \<lparr> Hash = None, IconURL = getAddonIconUrl imp (addon p), URL = u \<rparr>],
        Inr (Some False))"
  by (simp add: installExtension_def Let_def getFileHash_missing)

text \<open>
  C2. For an add-on with a current version and a non-empty install URL, \<open>getFileHash\<close>
  returns the hash of the first file of the version whose URL has the install URL
  without its query string as a prefix, and logs nothing; when no file's URL has that
  prefix it logs one warning and returns \<open>undefined\<close>. In that case
  \<open>installExtension\<close>, with \<open>InstallTrigger\<close> present, still calls
  \<open>InstallTrigger.install\<close>, with \<open>Hash\<close> undefined, and returns \<open>false\<close>.
\<close>

theorem file_hash_of_first_match:
  "(current_version a = Some ver \<and> u \<noteq> [] \<longrightarrow>
      (case find (\<lambda>f. prefix (strip_query u) (url f)) (files ver) of
         Some f \<Rightarrow> getFileHash (Some a) (Some u) = Inr ([], Some (hash f))
       | None \<Rightarrow>
           getFileHash (Some a) (Some u)
             = Inr ([LogWarn (NoFileHashFound (addon_slug a) u (strip_query u))], None)))
   \<and> (prop_InstallTrigger p \<and> current_version (addon p) = Some ver \<and> u \<noteq> [] \<and>
       find (\<lambda>f. prefix (strip_query u) (url f)) (files ver) = None \<longrightarrow>
      installExtension imp p u
        = ([trackInstallStarted imp (addon_name (addon p)) (addon_type (addon p)),
            LogDebug (InstallingWithInstallTrigger (addon_slug (addon p))),
            EventPreventDefault, EventStopPropagation,
            LogWarn (NoFileHashFound (addon_slug (addon p)) u (strip_query u)),
            InstallTrigger_install (addon_name (addon p))
              \<lparr> Hash = None, IconURL = getAddonIconUrl imp (addon p), URL = u \<rparr>],
           Inr (Some False)))"
  using getFileHash_found [of a ver u] getFileHash_missing [of a ver u]
    installExtension_missing [of p ver u imp]
  by (auto split: option.splits)


theorem file_hash_of_first_match_witness:
  "getFileHash (Some example_addon) (Some (js ''https://a.io/2.xpi?src=hp''))
     = Inr ([], Some (js ''sha256:bb''))
   \<and> getFileHash (Some example_addon) (Some (js ''https://a.io/3.xpi''))
     = Inr ([LogWarn (NoFileHashFound (js ''ublock'') (js ''https://a.io/3.xpi'')
                        (js ''https://a.io/3.xpi''))], None)
   \<and> installExtension example_imports example_button_props (js ''https://a.io/3.xpi'')
     = ([SendEvent (js ''addon'') (js ''Installs Started'') (js ''uBlock''),
         LogDebug (InstallingWithInstallTrigger (js ''ublock'')),
         EventPreventDefault, EventStopPropagation,
         LogWarn (NoFileHashFound (js ''ublock'') (js ''https://a.io/3.xpi'')
                    (js ''https://a.io/3.xpi'')),
         InstallTrigger_install (js ''uBlock'')
           \<lparr> Hash = None, IconURL = js ''https://a.io/icon.png'',
             URL = js ''https://a.io/3.xpi'' \<rparr>],
        Inr (Some False))"
proof -
  let ?ver = "\<lparr> files = [\<lparr> url = js ''https://a.io/1.xpi?src='', hash = js ''sha256:aa'' \<rparr>,
                         \<lparr> url = js ''https://a.io/2.xpi?src='', hash = js ''sha256:bb'' \<rparr>] \<rparr>"
  let ?hit = "js ''https://a.io/2.xpi?src=hp''"
  let ?miss = "js ''https://a.io/3.xpi''"
  have ver: "current_version example_addon = Some ?ver"
    "current_version (addon example_button_props) = Some ?ver"
    by (simp_all add: example_addon_def example_button_props_def)
  have ne: "?hit \<noteq> []" "?miss \<noteq> []"
    by (simp_all add: js_def)
  have sq: "strip_query ?hit = js ''https://a.io/2.xpi''" "strip_query ?miss = ?miss"
    by (simp_all add: strip_query_def js_def)
  have found: "find (\<lambda>f. prefix (strip_query ?hit) (url f)) (files ?ver)
      = Some \<lparr> url = js ''https://a.io/2.xpi?src='', hash = js ''sha256:bb'' \<rparr>"
    unfolding sq by (simp add: js_def)
  have missing: "find (\<lambda>f. prefix (strip_query ?miss) (url f)) (files ?ver) = None"
    unfolding sq by (simp add: js_def)
  have it: "prop_InstallTrigger example_button_props"
    by (simp add: example_button_props_def)
  have a: "getFileHash (Some example_addon) (Some ?hit) = Inr ([], Some (js ''sha256:bb''))"
    using file_hash_of_first_match [of example_addon ?ver ?hit example_button_props example_imports]
      ver(1) ne(1) found
    by simp
  have b: "getFileHash (Some example_addon) (Some ?miss)
      = Inr ([LogWarn (NoFileHashFound (addon_slug example_addon) ?miss (strip_query ?miss))], None)"
    using file_hash_of_first_match [of example_addon ?ver ?miss example_button_props example_imports]
      ver(1) ne(2) missing
    by simp
  have c: "installExtension example_imports example_button_props ?miss
        = ([trackInstallStarted example_imports (addon_name (addon example_button_props))
              (addon_type (addon example_button_props)),
            LogDebug (InstallingWithInstallTrigger (addon_slug (addon example_button_props))),
            EventPreventDefault, EventStopPropagation,
            LogWarn (NoFileHashFound (addon_slug (addon example_button_props)) ?miss
                       (strip_query ?miss)),
            InstallTrigger_install (addon_name (addon example_button_props))
              \<lparr> Hash = None, IconURL = getAddonIconUrl example_imports (addon example_button_props),
                URL = ?miss \<rparr>],
           Inr (Some False))"
    using file_hash_of_first_match [of example_addon ?ver ?miss example_button_props example_imports]
      it ver(2) ne(2) missing
    by blast
  have vals: "addon_slug example_addon = js ''ublock''"
    "addon example_button_props = example_addon"
    "addon_name example_addon = js ''uBlock''"
    "getAddonIconUrl example_imports example_addon = js ''https://a.io/icon.png''"
    "trackInstallStarted example_imports (js ''uBlock'') (addon_type example_addon)
       = SendEvent (js ''addon'') (js ''Installs Started'') (js ''uBlock'')"
    by (simp_all add: example_addon_def example_button_props_def example_imports_def
        trackInstallStarted_def)
  show ?thesis
    unfolding a b c sq vals by simp
qed

text \<open>
  C10. \<open>getFileHash\<close> throws exactly when the add-on argument is missing or the install
  URL is missing or empty, and then with the message that names the first such
  argument; in every other call it returns a value (a hash, or \<open>undefined\<close>).
\<close>

theorem getFileHash_throws_on_empty_arguments:
  "((\<exists>e. getFileHash a u = Inl e) \<longleftrightarrow> a = None \<or> \<not> truthy u)
   \<and> (a = None \<longrightarrow> getFileHash a u = Inl (Error ''The addon parameter cannot be empty''))
   \<and> (a \<noteq> None \<and> \<not> truthy u \<longrightarrow>
        getFileHash a u = Inl (Error ''The installURL parameter cannot be empty''))
   \<and> (a \<noteq> None \<and> truthy u \<longrightarrow> (\<exists>logged h. getFileHash a u = Inr (logged, h)))"
  by (auto simp: getFileHash_def truthy_def Let_def split: option.splits)

theorem getFileHash_throws_on_empty_arguments_witness:
  "getFileHash (None :: unit addon option) (Some (js ''https://a.io/2.xpi''))
     = Inl (Error ''The addon parameter cannot be empty'')
   \<and> getFileHash (Some example_addon) (Some [])
     = Inl (Error ''The installURL parameter cannot be empty'')
   \<and> getFileHash (Some example_addon) None
     = Inl (Error ''The installURL parameter cannot be empty'')
   \<and> (\<exists>logged h. getFileHash (Some example_addon) (Some (js ''https://a.io/2.xpi''))
         = Inr (logged, h))"
proof -
  have t: "\<not> truthy (Some [])" "\<not> truthy None" "truthy (Some (js ''https://a.io/2.xpi''))"
    by (simp_all add: truthy_def js_def)
  show ?thesis
    using getFileHash_throws_on_empty_arguments
        [of "None :: unit addon option" "Some (js ''https://a.io/2.xpi'')"]
      getFileHash_throws_on_empty_arguments [of "Some example_addon" "Some []"]
      getFileHash_throws_on_empty_arguments [of "Some example_addon" None]
      getFileHash_throws_on_empty_arguments [of "Some example_addon" "Some (js ''https://a.io/2.xpi'')"]
      t
    by blast
qed


section \<open>The install button\<close>

lemma render_button:
  "\<not> (addon_type (addon p) = ADDON_TYPE_OPENSEARCH \<and> prop_config_server p) \<Longrightarrow>
   \<not> showLoadingAnimation p \<Longrightarrow>
   \<exists>cls bp icon lbl. snd (render imp p) = Some (Button cls bp icon lbl) \<and>
     (js ''InstallButton-button--disabled'' \<in> set cls
        \<or> prop_getClientCompatibility p (addon p) (button_clientApp p) (userAgentInfo p)) \<and>
     onClick bp =
       (if \<not> prop_getClientCompatibility p (addon p) (button_clientApp p) (userAgentInfo p)
        then PreventDefaultOnly
        else if status p \<in> set [DISABLED, ENABLED, INSTALLED] then UninstallAddon
        else if addon_type (addon p) = ADDON_TYPE_THEME then InstallTheme
        else if addon_type (addon p) = ADDON_TYPE_OPENSEARCH then InstallOpenSearch
        else InstallExtension)"
  by (simp add: render_def Let_def)

lemma render_button_inv:
  assumes "snd (render imp p) = Some (Button cls bp icon lbl)"
  shows "\<not> (addon_type (addon p) = ADDON_TYPE_OPENSEARCH \<and> prop_config_server p)"
    and "\<not> showLoadingAnimation p"
  using assms by (auto simp: render_def Let_def split: if_splits)

lemma render_server_opensearch:
  "addon_type (addon p) = ADDON_TYPE_OPENSEARCH \<and> prop_config_server p \<Longrightarrow>
   render imp p = ([LogInfo NotRenderingOpenSearchOnServer], None)"
  by (simp add: render_def)

text \<open>
  C4. Whatever the add-on's type, when the status is \<open>DISABLED\<close>, \<open>ENABLED\<close> or
  \<open>INSTALLED\<close> and the compatibility check passes, \<open>render\<close> returns a button whose
  \<open>onClick\<close> is \<open>uninstallAddon\<close> (or nothing at all, for a search provider on the
  server). That handler stops the event, calls \<open>uninstall\<close> with the add-on's guid,
  name and type and the \<open>href\<close> of the clicked element, and returns \<open>false\<close>.
\<close>

theorem installed_addon_renders_uninstall:
  "status p \<in> {DISABLED, ENABLED, INSTALLED} \<and>
   prop_getClientCompatibility p (addon p) (button_clientApp p) (userAgentInfo p) \<longrightarrow>
     (if addon_type (addon p) = ADDON_TYPE_OPENSEARCH \<and> prop_config_server p
      then snd (render imp p) = None
      else (\<exists>cls bp icon lbl. snd (render imp p) = Some (Button cls bp icon lbl) \<and>
              onClick bp = UninstallAddon))
     \<and> click imp p UninstallAddon h
         = ([EventPreventDefault, EventStopPropagation,
             UninstallCall \<lparr> uninstall_guid = guid (addon p), uninstall_installURL = h,
                             uninstall_name = addon_name (addon p),
                             uninstall_type = addon_type (addon p) \<rparr>],
            Inr (Some False))"
proof (intro impI, elim conjE)
  assume st: "status p \<in> {DISABLED, ENABLED, INSTALLED}"
    and co: "prop_getClientCompatibility p (addon p) (button_clientApp p) (userAgentInfo p)"
  have nl: "\<not> showLoadingAnimation p"
    using st by (auto simp: showLoadingAnimation_def)
  have "\<exists>cls bp icon lbl. snd (render imp p) = Some (Button cls bp icon lbl) \<and>
              onClick bp = UninstallAddon"
    if "\<not> (addon_type (addon p) = ADDON_TYPE_OPENSEARCH \<and> prop_config_server p)"
    using render_button [OF that nl, of imp] st co by auto
  moreover have "snd (render imp p) = None"
    if "addon_type (addon p) = ADDON_TYPE_OPENSEARCH \<and> prop_config_server p"
    using render_server_opensearch [OF that] by simp
  moreover have "click imp p UninstallAddon h
         = ([EventPreventDefault, EventStopPropagation,
             UninstallCall \<lparr> uninstall_guid = guid (addon p), uninstall_installURL = h,
                             uninstall_name = addon_name (addon p),
                             uninstall_type = addon_type (addon p) \<rparr>],
            Inr (Some False))"
    by (simp add: click_def uninstallAddon_def)
  ultimately show "(if addon_type (addon p) = ADDON_TYPE_OPENSEARCH \<and> prop_config_server p
      then snd (render imp p) = None
      else (\<exists>cls bp icon lbl. snd (render imp p) = Some (Button cls bp icon lbl) \<and>
              onClick bp = UninstallAddon))
     \<and> click imp p UninstallAddon h
         = ([EventPreventDefault, EventStopPropagation,
             UninstallCall \<lparr> uninstall_guid = guid (addon p), uninstall_installURL = h,
                             uninstall_name = addon_name (addon p),
                             uninstall_type = addon_type (addon p) \<rparr>],
            Inr (Some False))"
    by (cases "addon_type (addon p) = ADDON_TYPE_OPENSEARCH \<and> prop_config_server p")
      (simp_all only: if_True if_False simp_thms)
qed

theorem installed_addon_renders_uninstall_witness:
  "(\<exists>cls bp icon lbl.
      snd (render example_imports (example_button_props\<lparr>status := INSTALLED\<rparr>))
        = Some (Button cls bp icon lbl) \<and> onClick bp = UninstallAddon)
   \<and> click example_imports (example_button_props\<lparr>status := INSTALLED\<rparr>) UninstallAddon
        (js ''https://a.io/2.xpi'')
      = ([EventPreventDefault, EventStopPropagation,
          UninstallCall \<lparr> uninstall_guid = js ''ublock@example.org'',
                          uninstall_installURL = js ''https://a.io/2.xpi'',
                          uninstall_name = js ''uBlock'',
                          uninstall_type = ADDON_TYPE_OTHER (js ''extension'') \<rparr>],
         Inr (Some False))"
proof -
  let ?p = "example_button_props\<lparr>status := INSTALLED\<rparr>"
  have st: "status ?p \<in> {DISABLED, ENABLED, INSTALLED}" by simp
  have co: "prop_getClientCompatibility ?p (addon ?p) (button_clientApp ?p) (userAgentInfo ?p)"
    by (simp add: example_button_props_def)
  have ty: "\<not> (addon_type (addon ?p) = ADDON_TYPE_OPENSEARCH \<and> prop_config_server ?p)"
    by (simp add: example_button_props_def)
  have vals: "guid (addon ?p) = js ''ublock@example.org''" "addon_name (addon ?p) = js ''uBlock''"
    "addon_type (addon ?p) = ADDON_TYPE_OTHER (js ''extension'')"
    by (simp_all add: example_button_props_def example_addon_def)
  show ?thesis
    using installed_addon_renders_uninstall [of ?p example_imports "js ''https://a.io/2.xpi''"]
      st co ty
    unfolding vals by (simp only: if_False simp_thms)
qed

text \<open>
  C7, as stated, fails: for an incompatible add-on whose status is \<open>DOWNLOADING\<close>,
  \<open>render\<close> returns the loading animation, not a disabled button.
\<close>

theorem incompatible_downloading_counterexample:
  "\<not> prop_getClientCompatibility (incompatible_button_props\<lparr>status := DOWNLOADING\<rparr>)
        (addon (incompatible_button_props\<lparr>status := DOWNLOADING\<rparr>))
        (button_clientApp (incompatible_button_props\<lparr>status := DOWNLOADING\<rparr>))
        (userAgentInfo (incompatible_button_props\<lparr>status := DOWNLOADING\<rparr>))
   \<and> snd (render example_imports (incompatible_button_props\<lparr>status := DOWNLOADING\<rparr>))
       = Some (LoadingAnimation (js ''Downloading''))"
  by (simp add: render_def Let_def showLoadingAnimation_def getButtonText_def
      incompatible_button_props_def example_button_props_def example_addon_def)

text \<open>
  C7, amended. When the compatibility check reports the add-on incompatible, every
  button that \<open>render\<close> returns carries the class \<open>InstallButton-button--disabled\<close> and
  the click handler that only prevents the default action; and \<open>render\<close> returns a
  button unless the status is \<open>DOWNLOADING\<close>, \<open>ENABLING\<close>, \<open>INSTALLING\<close> or \<open>UNINSTALLING\<close>
  (then it returns the loading animation) or the add-on is a search provider rendered
  on the server (then it returns nothing).
\<close>

theorem incompatible_addon_renders_disabled:
  "\<not> prop_getClientCompatibility p (addon p) (button_clientApp p) (userAgentInfo p) \<longrightarrow>
     (\<forall>cls bp icon lbl. snd (render imp p) = Some (Button cls bp icon lbl) \<longrightarrow>
        js ''InstallButton-button--disabled'' \<in> set cls \<and> onClick bp = PreventDefaultOnly)
     \<and> (status p \<notin> {DOWNLOADING, ENABLING, INSTALLING, UNINSTALLING} \<and>
          \<not> (addon_type (addon p) = ADDON_TYPE_OPENSEARCH \<and> prop_config_server p) \<longrightarrow>
          (\<exists>cls bp icon lbl. snd (render imp p) = Some (Button cls bp icon lbl)))
     \<and> click imp p PreventDefaultOnly h = ([EventPreventDefault], Inr None)"
proof (intro impI)
  assume inc: "\<not> prop_getClientCompatibility p (addon p) (button_clientApp p) (userAgentInfo p)"
  have a: "js ''InstallButton-button--disabled'' \<in> set cls \<and> onClick bp = PreventDefaultOnly"
    if r: "snd (render imp p) = Some (Button cls bp icon lbl)" for cls bp icon lbl
    using render_button [OF render_button_inv [OF r], of imp] r inc by auto
  have b: "\<exists>cls bp icon lbl. snd (render imp p) = Some (Button cls bp icon lbl)"
    if "status p \<notin> {DOWNLOADING, ENABLING, INSTALLING, UNINSTALLING}"
      "\<not> (addon_type (addon p) = ADDON_TYPE_OPENSEARCH \<and> prop_config_server p)"
  proof -
    have "\<not> showLoadingAnimation p"
      using that(1) by (simp add: showLoadingAnimation_def)
    from render_button [OF that(2) this, of imp] show ?thesis by blast
  qed
  have c: "click imp p PreventDefaultOnly h = ([EventPreventDefault], Inr None)"
    by (simp add: click_def)
  show "(\<forall>cls bp icon lbl. snd (render imp p) = Some (Button cls bp icon lbl) \<longrightarrow>
        js ''InstallButton-button--disabled'' \<in> set cls \<and> onClick bp = PreventDefaultOnly)
     \<and> (status p \<notin> {DOWNLOADING, ENABLING, INSTALLING, UNINSTALLING} \<and>
          \<not> (addon_type (addon p) = ADDON_TYPE_OPENSEARCH \<and> prop_config_server p) \<longrightarrow>
          (\<exists>cls bp icon lbl. snd (render imp p) = Some (Button cls bp icon lbl)))
     \<and> click imp p PreventDefaultOnly h = ([EventPreventDefault], Inr None)"
    using a b c by blast
qed

theorem incompatible_addon_renders_disabled_witness:
  "(\<exists>cls bp icon lbl.
      snd (render example_imports incompatible_button_props) = Some (Button cls bp icon lbl) \<and>
      js ''InstallButton-button--disabled'' \<in> set cls \<and> onClick bp = PreventDefaultOnly)
   \<and> click example_imports incompatible_button_props PreventDefaultOnly (js ''https://a.io/2.xpi'')
      = ([EventPreventDefault], Inr None)"
proof -
  let ?p = incompatible_button_props
  have inc: "\<not> prop_getClientCompatibility ?p (addon ?p) (button_clientApp ?p) (userAgentInfo ?p)"
    by (simp add: incompatible_button_props_def)
  have st: "status ?p \<notin> {DOWNLOADING, ENABLING, INSTALLING, UNINSTALLING}"
    by (simp add: incompatible_button_props_def example_button_props_def)
  have ty: "\<not> (addon_type (addon ?p) = ADDON_TYPE_OPENSEARCH \<and> prop_config_server ?p)"
    by (simp add: incompatible_button_props_def example_button_props_def)
  show ?thesis
    using incompatible_addon_renders_disabled [of ?p example_imports "js ''https://a.io/2.xpi''"]
      inc st ty
    by blast
qed

lemma installExtension_without_trigger:
  "\<not> prop_InstallTrigger p \<Longrightarrow>
   installExtension imp p h
     = ([trackInstallStarted imp (addon_name (addon p)) (addon_type (addon p))], Inr (Some True))"
  by (simp add: installExtension_def Let_def)

lemma installExtension_with_trigger:
  "prop_InstallTrigger p \<Longrightarrow> h \<noteq> [] \<Longrightarrow>
   \<exists>logged fh. getFileHash (Some (addon p)) (Some h) = Inr (logged, fh) \<and>
     installExtension imp p h
       = ([trackInstallStarted imp (addon_name (addon p)) (addon_type (addon p)),
           LogDebug (InstallingWithInstallTrigger (addon_slug (addon p))),
           EventPreventDefault, EventStopPropagation]
          @ logged @
          [InstallTrigger_install (addon_name (addon p))
             \<lparr> Hash = fh, IconURL = getAddonIconUrl imp (addon p), URL = h \<rparr>],
          Inr (Some False))"
proof -
  assume it: "prop_InstallTrigger p" and ne: "h \<noteq> []"
  have "\<exists>logged fh. getFileHash (Some (addon p)) (Some h) = Inr (logged, fh)"
    using ne by (auto simp: getFileHash_def Let_def split: option.splits)
  then obtain logged fh where g: "getFileHash (Some (addon p)) (Some h) = Inr (logged, fh)"
    by blast
  show ?thesis
    using it g by (simp add: installExtension_def Let_def)
qed

lemma installExtension_starts:
  "\<exists>rest. fst (installExtension imp p h)
     = trackInstallStarted imp (addon_name (addon p)) (addon_type (addon p)) # rest"
  by (auto simp: installExtension_def Let_def split: sum.splits)

lemma installTriggerCallback_succeeded:
  "trackInstallSucceeded imp (addon_name (addon p)) (addon_type (addon p))
     \<in> set (installTriggerCallback imp p x st) \<longleftrightarrow> st = 0"
  by (simp add: installTriggerCallback_def trackInstallSucceeded_def)

text \<open>
  C8, as stated, fails: with \<open>InstallTrigger\<close> present and a clicked element whose \<open>href\<close>
  is empty, the handler records the start, stops the event, and then \<open>getFileHash\<close>
  throws: \<open>InstallTrigger.install\<close> is not called.
\<close>

theorem extension_click_without_href_counterexample:
  "prop_InstallTrigger example_button_props
   \<and> installExtension example_imports example_button_props []
     = ([SendEvent (js ''addon'') (js ''Installs Started'') (js ''uBlock''),
         LogDebug (InstallingWithInstallTrigger (js ''ublock'')),
         EventPreventDefault, EventStopPropagation],
        Inl (Error ''The installURL parameter cannot be empty''))"
  by (simp add: installExtension_def Let_def getFileHash_def trackInstallStarted_def
      example_button_props_def example_addon_def example_imports_def)

text \<open>
  C8, amended. Every click handled by \<open>installExtension\<close> first records the
  install-started event. Without \<open>InstallTrigger\<close> that is all: the event is not
  stopped and the handler returns \<open>true\<close>, so the link is followed. With
  \<open>InstallTrigger\<close> and a non-empty \<open>href\<close>, the handler stops the event and calls
  \<open>InstallTrigger.install\<close> with the hash that \<open>getFileHash\<close> returns for the \<open>href\<close>, the
  icon URL and the \<open>href\<close>, and returns \<open>false\<close>. The completion callback records the
  install-succeeded event exactly when the status it receives is \<open>0\<close>.
\<close>

theorem extension_click:
  "(\<exists>rest. fst (installExtension imp p h)
      = trackInstallStarted imp (addon_name (addon p)) (addon_type (addon p)) # rest)
   \<and> (\<not> prop_InstallTrigger p \<longrightarrow>
        installExtension imp p h
          = ([trackInstallStarted imp (addon_name (addon p)) (addon_type (addon p))],
             Inr (Some True)))
   \<and> (prop_InstallTrigger p \<and> h \<noteq> [] \<longrightarrow>
        (\<exists>logged fh. getFileHash (Some (addon p)) (Some h) = Inr (logged, fh) \<and>
           installExtension imp p h
             = ([trackInstallStarted imp (addon_name (addon p)) (addon_type (addon p)),
                 LogDebug (InstallingWithInstallTrigger (addon_slug (addon p))),
                 EventPreventDefault, EventStopPropagation]
                @ logged @
                [InstallTrigger_install (addon_name (addon p))
                   \<lparr> Hash = fh, IconURL = getAddonIconUrl imp (addon p), URL = h \<rparr>],
                Inr (Some False))))
   \<and> (trackInstallSucceeded imp (addon_name (addon p)) (addon_type (addon p))
          \<in> set (installTriggerCallback imp p x st) \<longleftrightarrow> st = 0)"
  using installExtension_starts [of imp p h] installExtension_without_trigger [of p imp h]
    installExtension_with_trigger [of p h imp] installTriggerCallback_succeeded [of imp p x st]
  by blast

theorem extension_click_witness:
  "installExtension example_imports (example_button_props\<lparr>prop_InstallTrigger := False\<rparr>)
       (js ''https://a.io/2.xpi?src=hp'')
     = ([SendEvent (js ''addon'') (js ''Installs Started'') (js ''uBlock'')], Inr (Some True))
   \<and> installExtension example_imports example_button_props (js ''https://a.io/2.xpi?src=hp'')
     = ([SendEvent (js ''addon'') (js ''Installs Started'') (js ''uBlock''),
         LogDebug (InstallingWithInstallTrigger (js ''ublock'')),
         EventPreventDefault, EventStopPropagation,
         InstallTrigger_install (js ''uBlock'')
           \<lparr> Hash = Some (js ''sha256:bb''), IconURL = js ''https://a.io/icon.png'',
             URL = js ''https://a.io/2.xpi?src=hp'' \<rparr>],
        Inr (Some False))
   \<and> SendEvent (js ''addon'') (js ''Installs'') (js ''uBlock'')
       \<in> set (installTriggerCallback example_imports example_button_props
                 (js ''https://a.io/2.xpi?src=hp'') 0)"
proof -
  let ?p = example_button_props
  let ?q = "example_button_props\<lparr>prop_InstallTrigger := False\<rparr>"
  let ?h = "js ''https://a.io/2.xpi?src=hp''"
  let ?ver = "\<lparr> files = [\<lparr> url = js ''https://a.io/1.xpi?src='', hash = js ''sha256:aa'' \<rparr>,
                         \<lparr> url = js ''https://a.io/2.xpi?src='', hash = js ''sha256:bb'' \<rparr>] \<rparr>"
  have it: "prop_InstallTrigger ?p" "\<not> prop_InstallTrigger ?q"
    by (simp_all add: example_button_props_def)
  have ne: "?h \<noteq> []" by (simp add: js_def)
  have vals: "addon ?q = example_addon" "addon ?p = example_addon"
    "addon_slug example_addon = js ''ublock''"
    "addon_name example_addon = js ''uBlock''"
    "getAddonIconUrl example_imports example_addon = js ''https://a.io/icon.png''"
    "trackInstallStarted example_imports (js ''uBlock'') (addon_type example_addon)
       = SendEvent (js ''addon'') (js ''Installs Started'') (js ''uBlock'')"
    "trackInstallSucceeded example_imports (js ''uBlock'') (addon_type example_addon)
       = SendEvent (js ''addon'') (js ''Installs'') (js ''uBlock'')"
    by (simp_all add: example_addon_def example_button_props_def example_imports_def
        trackInstallStarted_def trackInstallSucceeded_def)
  have sq: "strip_query ?h = js ''https://a.io/2.xpi''"
    by (simp add: strip_query_def js_def)
  have found: "find (\<lambda>f. prefix (strip_query ?h) (url f)) (files ?ver)
      = Some \<lparr> url = js ''https://a.io/2.xpi?src='', hash = js ''sha256:bb'' \<rparr>"
    unfolding sq by (simp add: js_def)
  have g: "getFileHash (Some example_addon) (Some ?h) = Inr ([], Some (js ''sha256:bb''))"
    using getFileHash_found [of example_addon ?ver ?h, OF _ ne found]
    by (simp add: example_addon_def)
  have a: "installExtension example_imports ?q ?h
     = ([SendEvent (js ''addon'') (js ''Installs Started'') (js ''uBlock'')], Inr (Some True))"
    using extension_click [of example_imports ?q ?h ?h 0] it(2)
    unfolding vals by blast
  have b: "installExtension example_imports ?p ?h
     = ([SendEvent (js ''addon'') (js ''Installs Started'') (js ''uBlock''),
         LogDebug (InstallingWithInstallTrigger (js ''ublock'')),
         EventPreventDefault, EventStopPropagation,
         InstallTrigger_install (js ''uBlock'')
           \<lparr> Hash = Some (js ''sha256:bb''), IconURL = js ''https://a.io/icon.png'',
             URL = ?h \<rparr>],
        Inr (Some False))"
    using extension_click [of example_imports ?p ?h ?h 0] it(1) ne
    unfolding vals g by auto
  have c: "SendEvent (js ''addon'') (js ''Installs'') (js ''uBlock'')
       \<in> set (installTriggerCallback example_imports ?p ?h 0)"
    using extension_click [of example_imports ?p ?h ?h 0]
    unfolding vals by blast
  show ?thesis
    using a b c by (simp only: simp_thms)
qed

end
